theory Spec2Isabelle
  imports Complex_Main
begin

section \<open>Data model\<close>

text \<open>
  The service \<open>PokemonService\<close> (src/services/pokemon.service.ts) works on three tables
  through the Prisma client: \<open>pokemon\<close>, \<open>type\<close> and the join table \<open>pokemonType\<close>.
  A row of each table is a record; the store is a record of the three tables (lists of
  rows in insertion order) and the counter that hands out entity identifiers.
  Identifiers and base stats are mathematical integers, heights and weights are rational
  numbers. The operations run one after the other: a call is a function from the store
  to a result and the store after it.
\<close>

record pokemon_row =
  row_id :: int
  row_name :: string
  row_height :: "rat option"
  row_weight :: "rat option"
  row_description :: "string option"
  row_imageUrl :: "string option"
  row_baseHp :: int
  row_baseAttack :: int
  row_baseDefense :: int
  row_baseSpeed :: int

record type_row =
  type_id :: int
  type_name :: string

record pokemonType_row =
  pokemonId :: int
  typeId :: int

record db =
  pokemons :: "pokemon_row list"
  types :: "type_row list"
  pokemonTypes :: "pokemonType_row list"
  pokemon_seq :: int

text \<open>
  \<open>CreatePokemonInput\<close>: optional fields are \<open>None\<close> when the key is absent
  (\<open>undefined\<close>). The label references are strings, parsed with \<open>parseInt\<close> by the
  service.
\<close>

record CreatePokemonInput =
  c_name :: string
  c_height :: "rat option"
  c_weight :: "rat option"
  c_description :: "string option"
  c_imageUrl :: "string option"
  c_baseHp :: int
  c_baseAttack :: int
  c_baseDefense :: int
  c_baseSpeed :: int
  c_primaryTypeId :: string
  c_secondaryTypeId :: "string option"

text \<open>\<open>UpdatePokemonInput\<close>: every key is optional; \<open>None\<close> is \<open>undefined\<close>.\<close>

record UpdatePokemonInput =
  u_name :: "string option"
  u_height :: "rat option"
  u_weight :: "rat option"
  u_description :: "string option"
  u_imageUrl :: "string option"
  u_baseHp :: "int option"
  u_baseAttack :: "int option"
  u_baseDefense :: "int option"
  u_baseSpeed :: "int option"
  u_primaryTypeId :: "string option"
  u_secondaryTypeId :: "string option"

text \<open>\<open>Partial<PokemonQuery>\<close>: the filter of \<open>findMany\<close>.\<close>

record PokemonQuery =
  q_page :: "int option"
  q_limit :: "int option"
  q_search :: "string option"
  q_typeId :: "string option"

subsection \<open>Errors\<close>

text \<open>
  The service throws \<open>Error\<close> values told apart by their message; the Prisma client throws
  its own errors. Each message is a constructor:
  \<^item> \<open>PokemonNotFound\<close>: "Pokemon nao encontrado" (\<open>findById\<close>);
  \<^item> \<open>NameTaken n\<close>: "Ja existe um pokemon com o nome n";
  \<^item> \<open>PrimaryTypeNotFound\<close>: "Tipo primario nao encontrado";
  \<^item> \<open>SecondaryTypeNotFound\<close>: "Tipo secundario nao encontrado";
  \<^item> \<open>TypeNotFound\<close>: "Tipo nao encontrado";
  \<^item> \<open>AlreadyHasType\<close>: "Este pokemon ja possui este tipo";
  \<^item> \<open>MaxTypes\<close>: "Um pokemon pode ter no maximo 2 tipos";
  \<^item> \<open>MinTypes\<close>: "Um pokemon deve ter pelo menos 1 tipo";
  \<^item> \<open>Storage e\<close>: an error raised by the Prisma client itself; a violation of a
    uniqueness constraint names the constraint.
\<close>

datatype unique_key = Pokemon_name | PokemonType_pokemonId_typeId

datatype storage_error =
    UniqueConstraint unique_key
  | ForeignKeyConstraint
  | RecordNotFound
  | InvalidArgument

datatype error =
    PokemonNotFound
  | NameTaken string
  | PrimaryTypeNotFound
  | SecondaryTypeNotFound
  | TypeNotFound
  | AlreadyHasType
  | MaxTypes
  | MinTypes
  | Storage storage_error

datatype failure_kind = NotFound | Conflict | InvariantViolation | Internal

text \<open>
  Modelled from the spec: the failure kinds of the error taxonomy (section 7). The code
  that maps a thrown error to an externally visible kind is not in the source files of the
  service; the table of the spec gives NotFound for a missing entity or label, Conflict
  for a duplicate name or a duplicate label assignment, InvariantViolation for a label
  count pushed outside 1..2, and a separate kind for unexpected storage errors. A
  duplicate that the uniqueness constraints of the storage catch is surfaced as Conflict
  (section 5); the other errors of the storage are of the separate kind.
\<close>

fun kind_of :: "error \<Rightarrow> failure_kind" where
  "kind_of PokemonNotFound = NotFound"
| "kind_of (NameTaken n) = Conflict"
| "kind_of PrimaryTypeNotFound = NotFound"
| "kind_of SecondaryTypeNotFound = NotFound"
| "kind_of TypeNotFound = NotFound"
| "kind_of AlreadyHasType = Conflict"
| "kind_of MaxTypes = InvariantViolation"
| "kind_of MinTypes = InvariantViolation"
| "kind_of (Storage (UniqueConstraint k)) = Conflict"
| "kind_of (Storage ForeignKeyConstraint) = Internal"
| "kind_of (Storage RecordNotFound) = Internal"
| "kind_of (Storage InvalidArgument) = Internal"

section \<open>JavaScript helpers\<close>

text \<open>A string or \<open>undefined\<close> is truthy when it is a non-empty string.\<close>

fun truthy :: "string option \<Rightarrow> bool" where
  "truthy None = False"
| "truthy (Some s) = (s \<noteq> [])"

text \<open>\<open>x || null\<close> on an optional number: \<open>undefined\<close> and \<open>0\<close> are falsy.\<close>

fun num_or_null :: "rat option \<Rightarrow> rat option" where
  "num_or_null None = None"
| "num_or_null (Some x) = (if x = 0 then None else Some x)"

text \<open>\<open>x || null\<close> on an optional string: \<open>undefined\<close> and the empty string are falsy.\<close>

fun str_or_null :: "string option \<Rightarrow> string option" where
  "str_or_null None = None"
| "str_or_null (Some s) = (if s = [] then None else Some s)"

text \<open>
  \<open>parseInt(s)\<close> with no radix: leading white space is skipped, then an optional sign,
  then a \<open>0x\<close>/\<open>0X\<close> prefix selects radix 16 (radix 10 otherwise), then the longest
  run of digits of that radix is read; with no digit the result is \<open>NaN\<close>, here \<open>None\<close>.
  White space is the ASCII white space; the value is a mathematical integer.
\<close>

definition is_space :: "char \<Rightarrow> bool" where
  "is_space c = (c \<in> set [CHR '' '', CHR 0x09, CHR 0x0A, CHR 0x0B, CHR 0x0C, CHR 0x0D])"

definition digit_val :: "nat \<Rightarrow> char \<Rightarrow> nat option" where
  "digit_val radix c =
     (let n = (of_char c :: nat);
          v = (if 48 \<le> n \<and> n \<le> 57 then Some (n - 48)
               else if 97 \<le> n \<and> n \<le> 122 then Some (n - 87)
               else if 65 \<le> n \<and> n \<le> 90 then Some (n - 55)
               else None)
      in case v of None \<Rightarrow> None | Some d \<Rightarrow> (if d < radix then Some d else None))"

fun parse_digits :: "nat \<Rightarrow> string \<Rightarrow> nat option \<Rightarrow> nat option" where
  "parse_digits radix [] acc = acc"
| "parse_digits radix (c # cs) acc =
     (case digit_val radix c of
        None \<Rightarrow> acc
      | Some d \<Rightarrow> parse_digits radix cs
                    (Some ((case acc of None \<Rightarrow> 0 | Some a \<Rightarrow> a) * radix + d)))"

definition has_hex_prefix :: "string \<Rightarrow> bool" where
  "has_hex_prefix s = (take 2 s = ''0x'' \<or> take 2 s = ''0X'')"

definition parseInt :: "string \<Rightarrow> int option" where
  "parseInt s =
     (let s1 = dropWhile is_space s;
          neg = (take 1 s1 = ''-'');
          s2 = (if take 1 s1 = ''-'' \<or> take 1 s1 = ''+'' then drop 1 s1 else s1);
          r = (if has_hex_prefix s2 then parse_digits 16 (drop 2 s2) None
               else parse_digits 10 s2 None)
      in case r of
           None \<Rightarrow> None
         | Some n \<Rightarrow> Some (if neg then - int n else int n))"

text \<open>
  \<open>Math.ceil(total / limit)\<close> on integers: a division by zero gives an infinity, or
  \<open>NaN\<close> for \<open>0 / 0\<close>; otherwise the ceiling of the quotient.
\<close>

datatype jsnum = Finite int | PosInfinity | NegInfinity | NaN

definition ceil_div :: "int \<Rightarrow> int \<Rightarrow> jsnum" where
  "ceil_div t l =
     (if l = 0 then (if t = 0 then NaN else if 0 < t then PosInfinity else NegInfinity)
      else Finite (- ((- t) div l)))"

section \<open>The store\<close>

text \<open>
  Modelled from the spec: the Prisma schema of the three tables is not among the source
  files. The data model of the spec (section 3) and the queries of the service give its
  constraints: the entity identifier is unique and assigned by the storage, the entity
  name is unique (\<open>findUnique\<close> by name), the identifier of a label is unique, the pair
  (pokemonId, typeId) of an assignment is unique (\<open>findUnique\<close> by \<open>pokemonId_typeId\<close>),
  and an assignment references an existing entity and an existing label. The functions
  below are the calls of the Prisma client that the service makes: a write that breaks a
  constraint fails with a storage error and changes nothing. The delete of an entity
  that still has assignments is refused; the service deletes the assignments first.
\<close>

definition pokemon_findUnique_id :: "db \<Rightarrow> int \<Rightarrow> pokemon_row option" where
  "pokemon_findUnique_id d i = find (\<lambda>p. row_id p = i) (pokemons d)"

definition pokemon_findUnique_name :: "db \<Rightarrow> string \<Rightarrow> pokemon_row option" where
  "pokemon_findUnique_name d n = find (\<lambda>p. row_name p = n) (pokemons d)"

text \<open>The identifier comes from \<open>parseInt\<close>; the client refuses \<open>NaN\<close>.\<close>

definition type_findUnique :: "db \<Rightarrow> int option \<Rightarrow> error + type_row option" where
  "type_findUnique d i =
     (case i of
        None \<Rightarrow> Inl (Storage InvalidArgument)
      | Some n \<Rightarrow> Inr (find (\<lambda>t. type_id t = n) (types d)))"

definition pokemonType_findUnique :: "db \<Rightarrow> int \<Rightarrow> int \<Rightarrow> pokemonType_row option" where
  "pokemonType_findUnique d pid tid =
     find (\<lambda>pt. pokemonId pt = pid \<and> typeId pt = tid) (pokemonTypes d)"

definition pokemonType_count :: "db \<Rightarrow> int \<Rightarrow> nat" where
  "pokemonType_count d pid = length (filter (\<lambda>pt. pokemonId pt = pid) (pokemonTypes d))"

text \<open>
  Modelled from the spec: the schema is missing; the identifier of a new entity is
  assigned by the storage, here the next value of the counter, and the name is unique.
\<close>

definition pokemon_create ::
  "db \<Rightarrow> string \<Rightarrow> rat option \<Rightarrow> rat option \<Rightarrow> string option \<Rightarrow> string option \<Rightarrow>
   int \<Rightarrow> int \<Rightarrow> int \<Rightarrow> int \<Rightarrow> error + (pokemon_row \<times> db)" where
  "pokemon_create d n h w ds im hp atk df spd =
     (if \<exists>p \<in> set (pokemons d). row_name p = n
      then Inl (Storage (UniqueConstraint Pokemon_name))
      else
        (let newPokemon =
           \<lparr>row_id = pokemon_seq d + 1, row_name = n, row_height = h, row_weight = w,
            row_description = ds, row_imageUrl = im, row_baseHp = hp, row_baseAttack = atk,
            row_baseDefense = df, row_baseSpeed = spd\<rparr>
         in Inr (newPokemon,
                 d\<lparr>pokemons := pokemons d @ [newPokemon], pokemon_seq := pokemon_seq d + 1\<rparr>)))"

text \<open>
  Modelled from the spec: the schema is missing; the pair (pokemonId, typeId) is unique,
  and the two are references to an entity and to a label. The result carries the label of
  the new assignment (\<open>include: { type: true }\<close>, which \<open>addType\<close> returns).
\<close>

definition pokemonType_create ::
  "db \<Rightarrow> int \<Rightarrow> int option \<Rightarrow> error + ((pokemonType_row \<times> type_row) \<times> db)" where
  "pokemonType_create d pid tid =
     (case tid of
        None \<Rightarrow> Inl (Storage InvalidArgument)
      | Some t \<Rightarrow>
          if \<exists>pt \<in> set (pokemonTypes d). pokemonId pt = pid \<and> typeId pt = t
          then Inl (Storage (UniqueConstraint PokemonType_pokemonId_typeId))
          else if \<not> (\<exists>p \<in> set (pokemons d). row_id p = pid)
          then Inl (Storage ForeignKeyConstraint)
          else
            (case find (\<lambda>ty. type_id ty = t) (types d) of
               None \<Rightarrow> Inl (Storage ForeignKeyConstraint)
             | Some ty \<Rightarrow>
                 Inr ((\<lparr>pokemonId = pid, typeId = t\<rparr>, ty),
                      d\<lparr>pokemonTypes := pokemonTypes d @ [\<lparr>pokemonId = pid, typeId = t\<rparr>]\<rparr>)))"

definition pokemonType_deleteMany :: "db \<Rightarrow> int \<Rightarrow> db" where
  "pokemonType_deleteMany d pid =
     d\<lparr>pokemonTypes := filter (\<lambda>pt. pokemonId pt \<noteq> pid) (pokemonTypes d)\<rparr>"

text \<open>\<open>pokemonType.delete\<close> by the unique pair: the client throws when no row has it.\<close>

definition pokemonType_delete :: "db \<Rightarrow> int \<Rightarrow> int \<Rightarrow> error + db" where
  "pokemonType_delete d pid tid =
     (if \<exists>pt \<in> set (pokemonTypes d). pokemonId pt = pid \<and> typeId pt = tid
      then Inr (d\<lparr>pokemonTypes :=
                    filter (\<lambda>pt. \<not> (pokemonId pt = pid \<and> typeId pt = tid)) (pokemonTypes d)\<rparr>)
      else Inl (Storage RecordNotFound))"

text \<open>
  Modelled from the spec: the schema is missing; an entity that assignments still
  reference is not deleted.
\<close>

definition pokemon_delete :: "db \<Rightarrow> int \<Rightarrow> error + db" where
  "pokemon_delete d i =
     (if \<not> (\<exists>p \<in> set (pokemons d). row_id p = i) then Inl (Storage RecordNotFound)
      else if \<exists>pt \<in> set (pokemonTypes d). pokemonId pt = i
      then Inl (Storage ForeignKeyConstraint)
      else Inr (d\<lparr>pokemons := filter (\<lambda>p. row_id p \<noteq> i) (pokemons d)\<rparr>))"

text \<open>
  \<open>updateData\<close> of \<open>update\<close>: a key of the input is written when it is not
  \<open>undefined\<close>.
\<close>

definition updateData :: "UpdatePokemonInput \<Rightarrow> pokemon_row \<Rightarrow> pokemon_row" where
  "updateData data p =
     p\<lparr>row_name := (case u_name data of None \<Rightarrow> row_name p | Some n \<Rightarrow> n),
       row_height := (case u_height data of None \<Rightarrow> row_height p | Some h \<Rightarrow> Some h),
       row_weight := (case u_weight data of None \<Rightarrow> row_weight p | Some w \<Rightarrow> Some w),
       row_description :=
         (case u_description data of None \<Rightarrow> row_description p | Some s \<Rightarrow> Some s),
       row_imageUrl := (case u_imageUrl data of None \<Rightarrow> row_imageUrl p | Some s \<Rightarrow> Some s),
       row_baseHp := (case u_baseHp data of None \<Rightarrow> row_baseHp p | Some v \<Rightarrow> v),
       row_baseAttack := (case u_baseAttack data of None \<Rightarrow> row_baseAttack p | Some v \<Rightarrow> v),
       row_baseDefense :=
         (case u_baseDefense data of None \<Rightarrow> row_baseDefense p | Some v \<Rightarrow> v),
       row_baseSpeed := (case u_baseSpeed data of None \<Rightarrow> row_baseSpeed p | Some v \<Rightarrow> v)\<rparr>"

text \<open>
  Modelled from the spec: the schema is missing; the name stays unique under
  \<open>pokemon.update\<close>, which throws when no row has the identifier.
\<close>

definition pokemon_update ::
  "db \<Rightarrow> int \<Rightarrow> UpdatePokemonInput \<Rightarrow> error + (pokemon_row \<times> db)" where
  "pokemon_update d i data =
     (case find (\<lambda>p. row_id p = i) (pokemons d) of
        None \<Rightarrow> Inl (Storage RecordNotFound)
      | Some p \<Rightarrow>
          if (case u_name data of
                None \<Rightarrow> False
              | Some n \<Rightarrow> \<exists>q \<in> set (pokemons d). row_id q \<noteq> i \<and> row_name q = n)
          then Inl (Storage (UniqueConstraint Pokemon_name))
          else Inr (updateData data p,
                    d\<lparr>pokemons :=
                        map (\<lambda>q. if row_id q = i then updateData data q else q) (pokemons d)\<rparr>))"

text \<open>
  \<open>prisma.$transaction\<close>: the body runs on the store; when it throws, the store is the
  one before the transaction.
\<close>

definition transaction :: "db \<Rightarrow> (db \<Rightarrow> error + ('a \<times> db)) \<Rightarrow> (error + 'a) \<times> db" where
  "transaction d body =
     (case body d of
        Inl e \<Rightarrow> (Inl e, d)
      | Inr (r, d') \<Rightarrow> (Inr r, d'))"

text \<open>
  The read model: an entity with its assignments, each with its label
  (\<open>include: { PokemonType: { include: { type: true } } }\<close>).
\<close>

type_synonym hydrated_pokemonType = "pokemonType_row \<times> type_row"

type_synonym hydrated_pokemon = "pokemon_row \<times> hydrated_pokemonType list"

definition include_PokemonType :: "db \<Rightarrow> pokemon_row \<Rightarrow> hydrated_pokemon" where
  "include_PokemonType d p =
     (p, [(pt, t). pt \<leftarrow> pokemonTypes d, pokemonId pt = row_id p,
                   t \<leftarrow> types d, type_id t = typeId pt])"

section \<open>The service\<close>

text \<open>
  Every operation takes the store and returns its result, or the error it throws, with
  the store after the call.
\<close>

definition findById :: "db \<Rightarrow> int \<Rightarrow> error + hydrated_pokemon" where
  "findById d i =
     (case pokemon_findUnique_id d i of
        None \<Rightarrow> Inl PokemonNotFound
      | Some pokemon \<Rightarrow> Inr (include_PokemonType d pokemon))"

subsection \<open>create\<close>

text \<open>The look-up of the secondary label, made when the reference is truthy.\<close>

fun secondary_lookup :: "db \<Rightarrow> string option \<Rightarrow> error + unit" where
  "secondary_lookup d None = Inr ()"
| "secondary_lookup d (Some s) =
     (if s = [] then Inr ()
      else
        (case type_findUnique d (parseInt s) of
           Inl e \<Rightarrow> Inl e
         | Inr None \<Rightarrow> Inl SecondaryTypeNotFound
         | Inr (Some secondaryType) \<Rightarrow> Inr ()))"

text \<open>The second insert of the transaction, made when the reference is truthy.\<close>

fun secondary_insert :: "db \<Rightarrow> int \<Rightarrow> string option \<Rightarrow> error + db" where
  "secondary_insert tx pid None = Inr tx"
| "secondary_insert tx pid (Some s) =
     (if s = [] then Inr tx
      else
        (case pokemonType_create tx pid (parseInt s) of
           Inl e \<Rightarrow> Inl e
         | Inr (r, tx') \<Rightarrow> Inr tx'))"

definition create_tx :: "CreatePokemonInput \<Rightarrow> db \<Rightarrow> error + (pokemon_row \<times> db)" where
  "create_tx data tx =
     (case pokemon_create tx (c_name data)
             (num_or_null (c_height data)) (num_or_null (c_weight data))
             (str_or_null (c_description data)) (str_or_null (c_imageUrl data))
             (c_baseHp data) (c_baseAttack data) (c_baseDefense data) (c_baseSpeed data) of
        Inl e \<Rightarrow> Inl e
      | Inr (newPokemon, tx1) \<Rightarrow>
          (case pokemonType_create tx1 (row_id newPokemon) (parseInt (c_primaryTypeId data)) of
             Inl e \<Rightarrow> Inl e
           | Inr (r, tx2) \<Rightarrow>
               (case secondary_insert tx2 (row_id newPokemon) (c_secondaryTypeId data) of
                  Inl e \<Rightarrow> Inl e
                | Inr tx3 \<Rightarrow> Inr (newPokemon, tx3))))"

definition create :: "db \<Rightarrow> CreatePokemonInput \<Rightarrow> (error + hydrated_pokemon) \<times> db" where
  "create d data =
     (case pokemon_findUnique_name d (c_name data) of
        Some existingByName \<Rightarrow> (Inl (NameTaken (c_name data)), d)
      | None \<Rightarrow>
          (case type_findUnique d (parseInt (c_primaryTypeId data)) of
             Inl e \<Rightarrow> (Inl e, d)
           | Inr None \<Rightarrow> (Inl PrimaryTypeNotFound, d)
           | Inr (Some primaryType) \<Rightarrow>
               (case secondary_lookup d (c_secondaryTypeId data) of
                  Inl e \<Rightarrow> (Inl e, d)
                | Inr u \<Rightarrow>
                    (case transaction d (create_tx data) of
                       (Inl e, d') \<Rightarrow> (Inl e, d')
                     | (Inr pokemon, d') \<Rightarrow>
                         (case findById d' (row_id pokemon) of
                            Inl e \<Rightarrow> (Inl e, d')
                          | Inr h \<Rightarrow> (Inr h, d'))))))"

subsection \<open>update\<close>

text \<open>
  One label reference inside the transaction of \<open>update\<close>: when it is truthy, the label
  is looked up (the error \<open>nf\<close> when it is missing) and the assignment inserted.
\<close>

fun replace_type :: "db \<Rightarrow> int \<Rightarrow> error \<Rightarrow> string option \<Rightarrow> error + db" where
  "replace_type tx pid nf None = Inr tx"
| "replace_type tx pid nf (Some s) =
     (if s = [] then Inr tx
      else
        (case type_findUnique tx (parseInt s) of
           Inl e \<Rightarrow> Inl e
         | Inr None \<Rightarrow> Inl nf
         | Inr (Some ty) \<Rightarrow>
             (case pokemonType_create tx pid (parseInt s) of
                Inl e \<Rightarrow> Inl e
              | Inr (r, tx') \<Rightarrow> Inr tx')))"

definition update_tx :: "int \<Rightarrow> UpdatePokemonInput \<Rightarrow> db \<Rightarrow> error + (pokemon_row \<times> db)" where
  "update_tx i data tx =
     (case pokemon_update tx i data of
        Inl e \<Rightarrow> Inl e
      | Inr (updatedPokemon, tx1) \<Rightarrow>
          if truthy (u_primaryTypeId data) \<or> truthy (u_secondaryTypeId data)
          then
            (case replace_type (pokemonType_deleteMany tx1 i) i PrimaryTypeNotFound
                    (u_primaryTypeId data) of
               Inl e \<Rightarrow> Inl e
             | Inr tx2 \<Rightarrow>
                 (case replace_type tx2 i SecondaryTypeNotFound (u_secondaryTypeId data) of
                    Inl e \<Rightarrow> Inl e
                  | Inr tx3 \<Rightarrow> Inr (updatedPokemon, tx3)))
          else Inr (updatedPokemon, tx1))"

text \<open>The name check of \<open>update\<close>, made when the name is truthy.\<close>

fun name_check :: "db \<Rightarrow> int \<Rightarrow> string option \<Rightarrow> error + unit" where
  "name_check d i None = Inr ()"
| "name_check d i (Some s) =
     (if s = [] then Inr ()
      else
        (case pokemon_findUnique_name d s of
           None \<Rightarrow> Inr ()
         | Some existingByName \<Rightarrow>
             if row_id existingByName \<noteq> i then Inl (NameTaken s) else Inr ()))"

definition update ::
  "db \<Rightarrow> int \<Rightarrow> UpdatePokemonInput \<Rightarrow> (error + hydrated_pokemon) \<times> db" where
  "update d i data =
     (case findById d i of
        Inl e \<Rightarrow> (Inl e, d)
      | Inr found \<Rightarrow>
          (case name_check d i (u_name data) of
             Inl e \<Rightarrow> (Inl e, d)
           | Inr u \<Rightarrow>
               (case transaction d (update_tx i data) of
                  (Inl e, d') \<Rightarrow> (Inl e, d')
                | (Inr pokemon, d') \<Rightarrow>
                    (case findById d' (row_id pokemon) of
                       Inl e \<Rightarrow> (Inl e, d')
                     | Inr h \<Rightarrow> (Inr h, d')))))"

subsection \<open>delete\<close>

definition delete_tx :: "int \<Rightarrow> db \<Rightarrow> error + (unit \<times> db)" where
  "delete_tx i tx =
     (case pokemon_delete (pokemonType_deleteMany tx i) i of
        Inl e \<Rightarrow> Inl e
      | Inr tx' \<Rightarrow> Inr ((), tx'))"

definition delete :: "db \<Rightarrow> int \<Rightarrow> (error + string) \<times> db" where
  "delete d i =
     (case findById d i of
        Inl e \<Rightarrow> (Inl e, d)
      | Inr found \<Rightarrow>
          (case transaction d (delete_tx i) of
             (Inl e, d') \<Rightarrow> (Inl e, d')
           | (Inr u, d') \<Rightarrow> (Inr ''Pokemon deletado com sucesso'', d')))"

subsection \<open>addType and removeType\<close>

definition addType :: "db \<Rightarrow> int \<Rightarrow> int \<Rightarrow> (error + hydrated_pokemonType) \<times> db" where
  "addType d pid tid =
     (case findById d pid of
        Inl e \<Rightarrow> (Inl e, d)
      | Inr found \<Rightarrow>
          (case type_findUnique d (Some tid) of
             Inl e \<Rightarrow> (Inl e, d)
           | Inr None \<Rightarrow> (Inl TypeNotFound, d)
           | Inr (Some ty) \<Rightarrow>
               (case pokemonType_findUnique d pid tid of
                  Some existingPokemonType \<Rightarrow> (Inl AlreadyHasType, d)
                | None \<Rightarrow>
                    if 2 \<le> pokemonType_count d pid then (Inl MaxTypes, d)
                    else
                      (case pokemonType_create d pid (Some tid) of
                         Inl e \<Rightarrow> (Inl e, d)
                       | Inr (r, d') \<Rightarrow> (Inr r, d')))))"

definition removeType :: "db \<Rightarrow> int \<Rightarrow> int \<Rightarrow> (error + string) \<times> db" where
  "removeType d pid tid =
     (case findById d pid of
        Inl e \<Rightarrow> (Inl e, d)
      | Inr found \<Rightarrow>
          if pokemonType_count d pid \<le> 1 then (Inl MinTypes, d)
          else
            (case pokemonType_delete d pid tid of
               Inl e \<Rightarrow> (Inl e, d)
             | Inr d' \<Rightarrow> (Inr ''Tipo removido do pokemon com sucesso'', d')))"

subsection \<open>findMany\<close>

text \<open>
  The \<open>where\<close> object: \<open>name: { contains, mode: "insensitive" }\<close> when \<open>search\<close> is
  truthy, \<open>PokemonType: { some: { typeId: parseInt(typeId) } }\<close> when \<open>typeId\<close> is
  truthy (the inner \<open>None\<close> is a \<open>NaN\<close>).
\<close>

record pokemon_where =
  w_name_contains :: "string option"
  w_PokemonType_some :: "int option option"

definition build_where :: "PokemonQuery \<Rightarrow> pokemon_where" where
  "build_where filters =
     \<lparr>w_name_contains = (if truthy (q_search filters) then q_search filters else None),
      w_PokemonType_some =
        (case q_typeId filters of
           None \<Rightarrow> None
         | Some s \<Rightarrow> if s = [] then None else Some (parseInt s))\<rparr>"

text \<open>Case-insensitive containment, on ASCII letters.\<close>

definition lower_char :: "char \<Rightarrow> char" where
  "lower_char c =
     (let n = (of_char c :: nat) in if 65 \<le> n \<and> n \<le> 90 then char_of (n + 32) else c)"

fun starts_with :: "string \<Rightarrow> string \<Rightarrow> bool" where
  "starts_with xs [] = True"
| "starts_with [] (y # ys) = False"
| "starts_with (x # xs) (y # ys) = (x = y \<and> starts_with xs ys)"

fun contains_str :: "string \<Rightarrow> string \<Rightarrow> bool" where
  "contains_str [] ys = (ys = [])"
| "contains_str (x # xs) ys = (starts_with (x # xs) ys \<or> contains_str xs ys)"

definition contains_insensitive :: "string \<Rightarrow> string \<Rightarrow> bool" where
  "contains_insensitive n s = contains_str (map lower_char n) (map lower_char s)"

definition matches :: "db \<Rightarrow> pokemon_where \<Rightarrow> pokemon_row \<Rightarrow> bool" where
  "matches d w p =
     ((case w_name_contains w of
         None \<Rightarrow> True
       | Some s \<Rightarrow> contains_insensitive (row_name p) s) \<and>
      (case w_PokemonType_some w of
         None \<Rightarrow> True
       | Some t \<Rightarrow> \<exists>pt \<in> set (pokemonTypes d). pokemonId pt = row_id p \<and> Some (typeId pt) = t))"

text \<open>
  \<open>pokemon.findMany\<close> with \<open>orderBy: { id: "asc" }\<close>, \<open>skip\<close> and \<open>take\<close>: the client
  refuses a negative \<open>skip\<close> and a \<open>NaN\<close> in the filter; a negative \<open>take\<close> counts from
  the end of the ordered rows.
\<close>

definition ordered_matches :: "db \<Rightarrow> pokemon_where \<Rightarrow> pokemon_row list" where
  "ordered_matches d w = sort_key row_id (filter (matches d w) (pokemons d))"

definition pokemon_findMany ::
  "db \<Rightarrow> pokemon_where \<Rightarrow> int \<Rightarrow> int \<Rightarrow> error + hydrated_pokemon list" where
  "pokemon_findMany d w skip tk =
     (if w_PokemonType_some w = Some None \<or> skip < 0 then Inl (Storage InvalidArgument)
      else
        (let rows = ordered_matches d w;
             page_rows =
               (if 0 \<le> tk then take (nat tk) (drop (nat skip) rows)
                else rev (take (nat (- tk)) (drop (nat skip) (rev rows))))
         in Inr (map (include_PokemonType d) page_rows)))"

definition pokemon_count :: "db \<Rightarrow> pokemon_where \<Rightarrow> error + int" where
  "pokemon_count d w =
     (if w_PokemonType_some w = Some None then Inl (Storage InvalidArgument)
      else Inr (int (length (filter (matches d w) (pokemons d)))))"

record pagination =
  pg_page :: int
  pg_limit :: int
  pg_total :: int
  pg_totalPages :: jsnum
  pg_hasNext :: bool
  pg_hasPrev :: bool

record findMany_result =
  res_data :: "hydrated_pokemon list"
  res_pagination :: pagination

text \<open>The defaults of the destructuring \<open>{ page = 1, limit = 10, search, typeId }\<close>.\<close>

definition page_of :: "PokemonQuery \<Rightarrow> int" where
  "page_of filters = (case q_page filters of None \<Rightarrow> 1 | Some v \<Rightarrow> v)"

definition limit_of :: "PokemonQuery \<Rightarrow> int" where
  "limit_of filters = (case q_limit filters of None \<Rightarrow> 10 | Some v \<Rightarrow> v)"

definition findMany :: "db \<Rightarrow> PokemonQuery \<Rightarrow> error + findMany_result" where
  "findMany d filters =
     (let page = page_of filters;
          limit = limit_of filters;
          skip = (page - 1) * limit;
          w = build_where filters
      in case pokemon_findMany d w skip limit of
           Inl e \<Rightarrow> Inl e
         | Inr found \<Rightarrow>
             (case pokemon_count d w of
                Inl e \<Rightarrow> Inl e
              | Inr tot \<Rightarrow>
                  Inr \<lparr>res_data = found,
                       res_pagination =
                         \<lparr>pg_page = page, pg_limit = limit, pg_total = tot,
                          pg_totalPages = ceil_div tot limit,
                          pg_hasNext = (page * limit < tot),
                          pg_hasPrev = (1 < page)\<rparr>\<rparr>))"

section \<open>Sequences of operations\<close>

datatype operation =
    Create CreatePokemonInput
  | Update int UpdatePokemonInput
  | Delete int
  | AddType int int
  | RemoveType int int

text \<open>The store after one completed operation, whether it succeeded or threw.\<close>

fun step :: "db \<Rightarrow> operation \<Rightarrow> db" where
  "step d (Create data) = snd (create d data)"
| "step d (Update i data) = snd (update d i data)"
| "step d (Delete i) = snd (delete d i)"
| "step d (AddType pid tid) = snd (addType d pid tid)"
| "step d (RemoveType pid tid) = snd (removeType d pid tid)"

fun run :: "db \<Rightarrow> operation list \<Rightarrow> db" where
  "run d [] = d"
| "run d (x # xs) = run (step d x) xs"

subsection \<open>Constraints of the store and the cardinality invariant\<close>

text \<open>
  Modelled from the spec: the schema is missing. The constraints that the storage
  enforces: unique entity identifiers, none beyond the counter, unique names, unique
  label identifiers, unique assignment pairs, and every assignment referencing an
  existing entity and an existing label.
\<close>

definition db_ok :: "db \<Rightarrow> bool" where
  "db_ok d =
     (distinct (map row_id (pokemons d)) \<and>
      distinct (map row_name (pokemons d)) \<and>
      distinct (map type_id (types d)) \<and>
      distinct (pokemonTypes d) \<and>
      (\<forall>p \<in> set (pokemons d). row_id p \<le> pokemon_seq d) \<and>
      (\<forall>pt \<in> set (pokemonTypes d).
         (\<exists>p \<in> set (pokemons d). row_id p = pokemonId pt) \<and>
         (\<exists>t \<in> set (types d). type_id t = typeId pt)))"

text \<open>Every entity of the store has one or two assignments.\<close>

definition cardinality_inv :: "db \<Rightarrow> bool" where
  "cardinality_inv d =
     (\<forall>p \<in> set (pokemons d). pokemonType_count d (row_id p) = 1 \<or> pokemonType_count d (row_id p) = 2)"

subsection \<open>Conditions on an update input\<close>

text \<open>No other entity has the name that the input supplies.\<close>

definition name_free :: "db \<Rightarrow> int \<Rightarrow> UpdatePokemonInput \<Rightarrow> bool" where
  "name_free d i data =
     (case u_name data of
        None \<Rightarrow> True
      | Some n \<Rightarrow> \<not> (\<exists>q \<in> set (pokemons d). row_id q \<noteq> i \<and> row_name q = n))"

text \<open>A label reference resolves when it parses to the identifier of a label.\<close>

definition resolves :: "db \<Rightarrow> string \<Rightarrow> bool" where
  "resolves d s =
     (case parseInt s of
        None \<Rightarrow> False
      | Some t \<Rightarrow> \<exists>ty \<in> set (types d). type_id ty = t)"





section \<open>Example stores and inputs\<close>

definition ex_types :: "type_row list" where
  "ex_types =
     [\<lparr>type_id = 1, type_name = ''fire''\<rparr>, \<lparr>type_id = 2, type_name = ''water''\<rparr>,
      \<lparr>type_id = 3, type_name = ''grass''\<rparr>]"

definition ex_row :: "int \<Rightarrow> string \<Rightarrow> pokemon_row" where
  "ex_row i n =
     \<lparr>row_id = i, row_name = n, row_height = None, row_weight = None,
      row_description = None, row_imageUrl = None, row_baseHp = 45, row_baseAttack = 49,
      row_baseDefense = 49, row_baseSpeed = 45\<rparr>"

text \<open>Entity 1 carries the labels 3 and 2, entity 2 carries the label 1.\<close>

definition ex_db :: db where
  "ex_db =
     \<lparr>pokemons = [ex_row 1 ''bulbasaur'', ex_row 2 ''charmander''],
      types = ex_types,
      pokemonTypes =
        [\<lparr>pokemonId = 1, typeId = 3\<rparr>, \<lparr>pokemonId = 1, typeId = 2\<rparr>,
         \<lparr>pokemonId = 2, typeId = 1\<rparr>],
      pokemon_seq = 2\<rparr>"

definition ex_input :: "string \<Rightarrow> string \<Rightarrow> string option \<Rightarrow> CreatePokemonInput" where
  "ex_input n p s =
     \<lparr>c_name = n, c_height = Some 0, c_weight = Some 0, c_description = Some [],
      c_imageUrl = Some [], c_baseHp = 44, c_baseAttack = 48, c_baseDefense = 65,
      c_baseSpeed = 43, c_primaryTypeId = p, c_secondaryTypeId = s\<rparr>"

text \<open>A store with the three labels and no entity, and a run of operations on it.\<close>

definition ex_empty :: db where
  "ex_empty = \<lparr>pokemons = [], types = ex_types, pokemonTypes = [], pokemon_seq = 0\<rparr>"

definition ex_update :: "string option \<Rightarrow> string option \<Rightarrow> string option \<Rightarrow> UpdatePokemonInput" where
  "ex_update n p s =
     \<lparr>u_name = n, u_height = None, u_weight = None, u_description = None, u_imageUrl = None,
      u_baseHp = None, u_baseAttack = None, u_baseDefense = None, u_baseSpeed = None,
      u_primaryTypeId = p, u_secondaryTypeId = s\<rparr>"

definition ex_ops :: "operation list" where
  "ex_ops =
     [Create (ex_input ''squirtle'' ''2'' None),
      Create (ex_input ''oddish'' ''3'' (Some ''1'')),
      AddType 1 3, AddType 1 1, RemoveType 2 3, RemoveType 2 1,
      Update 1 (ex_update None (Some ''1'') None),
      Create (ex_input ''ditto'' ''1'' (Some ''1'')),
      Delete 2]"

text \<open>The entity that \<open>create\<close> adds to the example store, and the store with it.\<close>

definition ex_ditto :: pokemon_row where
  "ex_ditto =
     \<lparr>row_id = 3, row_name = ''ditto'', row_height = None, row_weight = None,
      row_description = None, row_imageUrl = None, row_baseHp = 44, row_baseAttack = 48,
      row_baseDefense = 65, row_baseSpeed = 43\<rparr>"

definition ex_db_ditto :: db where
  "ex_db_ditto =
     \<lparr>pokemons = [ex_row 1 ''bulbasaur'', ex_row 2 ''charmander'', ex_ditto],
      types = ex_types,
      pokemonTypes =
        [\<lparr>pokemonId = 1, typeId = 3\<rparr>, \<lparr>pokemonId = 1, typeId = 2\<rparr>,
         \<lparr>pokemonId = 2, typeId = 1\<rparr>, \<lparr>pokemonId = 3, typeId = 1\<rparr>],
      pokemon_seq = 3\<rparr>"


text \<open>
  A store with five entities, inserted out of identifier order, one label each, and the
  query for a page of two.
\<close>

definition ex_db5 :: db where
  "ex_db5 =
     \<lparr>pokemons = [ex_row 3 ''c'', ex_row 1 ''a'', ex_row 5 ''e'', ex_row 2 ''b'', ex_row 4 ''d''],
      types = ex_types,
      pokemonTypes =
        [\<lparr>pokemonId = 3, typeId = 1\<rparr>, \<lparr>pokemonId = 1, typeId = 1\<rparr>,
         \<lparr>pokemonId = 5, typeId = 2\<rparr>, \<lparr>pokemonId = 2, typeId = 2\<rparr>,
         \<lparr>pokemonId = 4, typeId = 3\<rparr>],
      pokemon_seq = 5\<rparr>"

definition ex_query :: "int \<Rightarrow> PokemonQuery" where
  "ex_query pg = \<lparr>q_page = Some pg, q_limit = Some 2, q_search = None, q_typeId = None\<rparr>"

text \<open>A query with any page, page size and label filter, and a hydrated entity.\<close>

definition ex_filter :: "int \<Rightarrow> int \<Rightarrow> string option \<Rightarrow> PokemonQuery" where
  "ex_filter pg lm ty = \<lparr>q_page = Some pg, q_limit = Some lm, q_search = None, q_typeId = ty\<rparr>"

definition ex_hydrated :: "int \<Rightarrow> string \<Rightarrow> type_row \<Rightarrow> hydrated_pokemon" where
  "ex_hydrated i n ty = (ex_row i n, [(\<lparr>pokemonId = i, typeId = type_id ty\<rparr>, ty)])"

section \<open>Look-ups\<close>

lemma find_None_set: "(find P xs = None) = (\<not> (\<exists>x \<in> set xs. P x))"
  by (induction xs) auto

lemma find_Some_set: "find P xs = Some x \<Longrightarrow> x \<in> set xs \<and> P x"
  by (auto simp: find_Some_iff)

lemma findById_exists:
  "(\<exists>p \<in> set (pokemons d). row_id p = i) \<Longrightarrow> \<exists>h. findById d i = Inr h"
  by (cases "find (\<lambda>p. row_id p = i) (pokemons d)")
     (auto simp: findById_def pokemon_findUnique_id_def find_None_set)

lemma findById_missing:
  "\<not> (\<exists>p \<in> set (pokemons d). row_id p = i) \<Longrightarrow> findById d i = Inl PokemonNotFound"
proof -
  assume "\<not> (\<exists>p \<in> set (pokemons d). row_id p = i)"
  then have "find (\<lambda>p. row_id p = i) (pokemons d) = None"
    using find_None_set [of "\<lambda>p. row_id p = i" "pokemons d"] by blast
  then show ?thesis by (simp add: findById_def pokemon_findUnique_id_def)
qed

section \<open>Effects of the writes\<close>

lemma pokemonType_create_Inr:
  assumes "pokemonType_create d pid tid = Inr (r, d')"
  shows "\<exists>t ty. tid = Some t \<and> r = (\<lparr>pokemonId = pid, typeId = t\<rparr>, ty) \<and>
           ty \<in> set (types d) \<and> type_id ty = t \<and>
           (\<exists>p \<in> set (pokemons d). row_id p = pid) \<and>
           \<not> (\<exists>pt \<in> set (pokemonTypes d). pokemonId pt = pid \<and> typeId pt = t) \<and>
           d' = d\<lparr>pokemonTypes := pokemonTypes d @ [\<lparr>pokemonId = pid, typeId = t\<rparr>]\<rparr>"
  using assms
  by (auto simp: pokemonType_create_def split: option.splits if_splits dest: find_Some_set)

lemma pokemon_create_Inr:
  assumes "pokemon_create d n h w ds im hp atk df spd = Inr (p, d')"
  shows "p = \<lparr>row_id = pokemon_seq d + 1, row_name = n, row_height = h, row_weight = w,
            row_description = ds, row_imageUrl = im, row_baseHp = hp, row_baseAttack = atk,
            row_baseDefense = df, row_baseSpeed = spd\<rparr> \<and>
         \<not> (\<exists>q \<in> set (pokemons d). row_name q = n) \<and>
         d' = d\<lparr>pokemons := pokemons d @ [p], pokemon_seq := pokemon_seq d + 1\<rparr>"
  using assms
  by (auto simp: pokemon_create_def Let_def split: if_splits)

lemma pokemonType_delete_Inr:
  assumes "pokemonType_delete d pid tid = Inr d'"
  shows "(\<exists>pt \<in> set (pokemonTypes d). pokemonId pt = pid \<and> typeId pt = tid) \<and>
         d' = d\<lparr>pokemonTypes :=
                  filter (\<lambda>pt. \<not> (pokemonId pt = pid \<and> typeId pt = tid)) (pokemonTypes d)\<rparr>"
  using assms by (auto simp: pokemonType_delete_def split: if_splits)

lemma pokemon_delete_Inr:
  assumes "pokemon_delete d i = Inr d'"
  shows "\<not> (\<exists>pt \<in> set (pokemonTypes d). pokemonId pt = i) \<and>
         d' = d\<lparr>pokemons := filter (\<lambda>p. row_id p \<noteq> i) (pokemons d)\<rparr>"
  using assms by (auto simp: pokemon_delete_def split: if_splits)

lemma pokemon_update_Inr:
  assumes "pokemon_update d i data = Inr (p, d')"
  shows "(\<exists>q \<in> set (pokemons d). row_id q = i \<and> p = updateData data q) \<and>
         (\<forall>n. u_name data = Some n \<longrightarrow>
            \<not> (\<exists>q \<in> set (pokemons d). row_id q \<noteq> i \<and> row_name q = n)) \<and>
         d' = d\<lparr>pokemons :=
                  map (\<lambda>q. if row_id q = i then updateData data q else q) (pokemons d)\<rparr>"
  using assms
  by (auto simp: pokemon_update_def split: option.splits if_splits dest: find_Some_set)

lemma row_id_updateData [simp]: "row_id (updateData data p) = row_id p"
  by (simp add: updateData_def)

lemma row_name_updateData:
  "row_name (updateData data p) = (case u_name data of None \<Rightarrow> row_name p | Some n \<Rightarrow> n)"
  by (simp add: updateData_def)

subsection \<open>The writes keep the constraints of the store\<close>

lemma db_ok_pokemonType_create:
  assumes "db_ok d" and "pokemonType_create d pid tid = Inr (r, d')"
  shows "db_ok d'"
proof -
  from pokemonType_create_Inr [OF assms(2)] obtain t ty where
    f: "ty \<in> set (types d)" "type_id ty = t" "\<exists>p \<in> set (pokemons d). row_id p = pid"
       "\<not> (\<exists>pt \<in> set (pokemonTypes d). pokemonId pt = pid \<and> typeId pt = t)"
       "d' = d\<lparr>pokemonTypes := pokemonTypes d @ [\<lparr>pokemonId = pid, typeId = t\<rparr>]\<rparr>"
    by blast
  from f(4) have "\<lparr>pokemonId = pid, typeId = t\<rparr> \<notin> set (pokemonTypes d)" by force
  with assms(1) f show ?thesis by (auto simp: db_ok_def)
qed

lemma db_ok_pokemon_create:
  assumes "db_ok d" and "pokemon_create d n h w ds im hp atk df spd = Inr (p, d')"
  shows "db_ok d'"
  using assms(1) pokemon_create_Inr [OF assms(2)]
  by (fastforce simp: db_ok_def)

lemma db_ok_deleteMany: "db_ok d \<Longrightarrow> db_ok (pokemonType_deleteMany d i)"
  by (auto simp: db_ok_def pokemonType_deleteMany_def)

lemma db_ok_pokemonType_delete:
  "db_ok d \<Longrightarrow> pokemonType_delete d pid tid = Inr d' \<Longrightarrow> db_ok d'"
  by (auto simp: db_ok_def dest!: pokemonType_delete_Inr)

lemma db_ok_pokemon_delete:
  assumes "db_ok d" and "pokemon_delete d i = Inr d'"
  shows "db_ok d'"
proof -
  from pokemon_delete_Inr [OF assms(2)] have
    nr: "\<forall>pt \<in> set (pokemonTypes d). pokemonId pt \<noteq> i" and
    d': "d' = d\<lparr>pokemons := filter (\<lambda>p. row_id p \<noteq> i) (pokemons d)\<rparr>"
    by auto
  have "\<exists>p \<in> set (pokemons d'). row_id p = pokemonId pt"
    if "pt \<in> set (pokemonTypes d')" for pt
  proof -
    from that d' have m: "pt \<in> set (pokemonTypes d)" by simp
    with assms(1) obtain p where "p \<in> set (pokemons d)" "row_id p = pokemonId pt"
      by (auto simp: db_ok_def)
    moreover from m nr have "pokemonId pt \<noteq> i" by blast
    ultimately show ?thesis using d' by auto
  qed
  with assms(1) d' show ?thesis
    by (simp add: db_ok_def distinct_map_filter)
qed

lemma map_row_id_update:
  "map row_id (map (\<lambda>q. if row_id q = i then updateData data q else q) ps) = map row_id ps"
  by (induction ps) auto

lemma distinct_names_update:
  assumes di: "distinct (map row_id ps)" and dn: "distinct (map row_name ps)"
    and nm: "\<forall>n. u_name data = Some n \<longrightarrow>
               \<not> (\<exists>q \<in> set ps. row_id q \<noteq> i \<and> row_name q = n)"
  shows "distinct (map row_name (map (\<lambda>q. if row_id q = i then updateData data q else q) ps))"
proof -
  let ?g = "\<lambda>q. if row_id q = i then updateData data q else q"
  from di have ii: "inj_on row_id (set ps)" by (simp add: distinct_map)
  from dn have inn: "inj_on row_name (set ps)" by (simp add: distinct_map)
  have inj: "inj_on (\<lambda>q. row_name (?g q)) (set ps)"
  proof (rule inj_onI)
    fix x y assume x: "x \<in> set ps" and y: "y \<in> set ps"
      and e: "row_name (?g x) = row_name (?g y)"
    show "x = y"
    proof (cases "row_id x = i")
      case True
      show ?thesis
      proof (cases "row_id y = i")
        case True
        with \<open>row_id x = i\<close> ii x y show ?thesis by (auto dest: inj_onD)
      next
        case False
        with True e nm y inn x show ?thesis
          by (cases "u_name data") (auto simp: row_name_updateData dest: inj_onD)
      qed
    next
      case False
      show ?thesis
      proof (cases "row_id y = i")
        case True
        with False e nm x inn y show ?thesis
          by (cases "u_name data") (auto simp: row_name_updateData dest: inj_onD)
      next
        case False
        with \<open>row_id x \<noteq> i\<close> e inn x y show ?thesis by (auto dest: inj_onD)
      qed
    qed
  qed
  from dn have "distinct ps" by (simp add: distinct_map)
  with inj have "distinct (map (\<lambda>q. row_name (?g q)) ps)"
    by (simp add: distinct_map)
  then show ?thesis by (simp add: comp_def)
qed

lemma db_ok_pokemon_update:
  assumes "db_ok d" and "pokemon_update d i data = Inr (p, d')"
  shows "db_ok d'"
proof -
  define ps where "ps = map (\<lambda>q. if row_id q = i then updateData data q else q) (pokemons d)"
  from pokemon_update_Inr [OF assms(2)] have
    nm: "\<forall>n. u_name data = Some n \<longrightarrow>
           \<not> (\<exists>q \<in> set (pokemons d). row_id q \<noteq> i \<and> row_name q = n)" and
    d': "d' = d\<lparr>pokemons := ps\<rparr>"
    by (auto simp: ps_def)
  have ids: "map row_id ps = map row_id (pokemons d)"
    unfolding ps_def by (rule map_row_id_update)
  from assms(1) have dn: "distinct (map row_name (pokemons d))"
    and di: "distinct (map row_id (pokemons d))"
    by (auto simp: db_ok_def)
  have names: "distinct (map row_name ps)"
    unfolding ps_def by (rule distinct_names_update [OF di dn nm])
  have sets: "row_id ` set ps = row_id ` set (pokemons d)"
    using ids by (metis set_map)
  have bound: "\<forall>q \<in> set ps. row_id q \<le> pokemon_seq d"
    using assms(1) sets unfolding db_ok_def by (metis image_iff)
  have fk: "\<forall>pt \<in> set (pokemonTypes d). \<exists>q \<in> set ps. row_id q = pokemonId pt"
    using assms(1) sets unfolding db_ok_def by (metis image_iff)
  from assms(1) ids names bound fk d' show ?thesis
    by (simp add: db_ok_def)
qed

subsection \<open>Assignment counts after a write\<close>

lemma count_pokemonType_create:
  assumes "pokemonType_create d pid tid = Inr (r, d')"
  shows "pokemonType_count d' q =
           (if q = pid then Suc (pokemonType_count d pid) else pokemonType_count d q)"
  using pokemonType_create_Inr [OF assms] by (auto simp: pokemonType_count_def)

lemma length_filter_other:
  "length (filter (\<lambda>pt. pokemonId pt = q) (filter (\<lambda>pt. pokemonId pt \<noteq> i) xs)) =
     (if q = i then 0 else length (filter (\<lambda>pt. pokemonId pt = q) xs))"
  by (induction xs) auto

lemma count_deleteMany:
  "pokemonType_count (pokemonType_deleteMany d i) q = (if q = i then 0 else pokemonType_count d q)"
  by (simp add: pokemonType_count_def pokemonType_deleteMany_def length_filter_other
      del: filter_filter)

lemma filter_absent:
  "x \<notin> set xs \<Longrightarrow> filter P (filter (\<lambda>y. y \<noteq> x) xs) = filter P xs"
  by (induction xs) auto

lemma count_filter_remove:
  assumes "distinct xs" and "x \<in> set xs" and "P x"
  shows "Suc (length (filter P (filter (\<lambda>y. y \<noteq> x) xs))) = length (filter P xs)"
  using assms
proof (induction xs)
  case Nil
  then show ?case by simp
next
  case (Cons a xs)
  show ?case
  proof (cases "a = x")
    case True
    with Cons.prems have "x \<notin> set xs" by simp
    from filter_absent [OF this, of P] True Cons.prems(3) show ?thesis
      by (simp del: filter_filter)
  next
    case False
    with Cons.prems have "distinct xs" "x \<in> set xs" by auto
    from Cons.IH [OF this Cons.prems(3)] False show ?thesis
      by (simp del: filter_filter)
  qed
qed

lemma count_filter_keep:
  assumes "\<not> P x"
  shows "length (filter P (filter (\<lambda>y. y \<noteq> x) xs)) = length (filter P xs)"
  using assms by (induction xs) (auto simp del: filter_filter)

lemma pokemonType_row_eq:
  "(pt \<noteq> \<lparr>pokemonId = pid, typeId = tid\<rparr>) = (\<not> (pokemonId pt = pid \<and> typeId pt = tid))"
  by (cases pt) auto

lemma count_pokemonType_delete:
  assumes "distinct (pokemonTypes d)" and "pokemonType_delete d pid tid = Inr d'"
  shows "Suc (pokemonType_count d' pid) = pokemonType_count d pid"
    and "q \<noteq> pid \<Longrightarrow> pokemonType_count d' q = pokemonType_count d q"
proof -
  let ?x = "\<lparr>pokemonId = pid, typeId = tid\<rparr>"
  from pokemonType_delete_Inr [OF assms(2)] have
    ex: "\<exists>pt \<in> set (pokemonTypes d). pokemonId pt = pid \<and> typeId pt = tid" and
    d': "d' = d\<lparr>pokemonTypes := filter (\<lambda>pt. pt \<noteq> ?x) (pokemonTypes d)\<rparr>"
    by (auto simp: pokemonType_row_eq)
  from ex have m: "?x \<in> set (pokemonTypes d)"
    by (metis pokemonType_row_eq)
  show "Suc (pokemonType_count d' pid) = pokemonType_count d pid"
    using count_filter_remove [OF assms(1) m, of "\<lambda>pt. pokemonId pt = pid"] d'
    by (simp add: pokemonType_count_def del: filter_filter)
  show "q \<noteq> pid \<Longrightarrow> pokemonType_count d' q = pokemonType_count d q"
    using count_filter_keep [of "\<lambda>pt. pokemonId pt = q" ?x "pokemonTypes d"] d'
    by (simp add: pokemonType_count_def del: filter_filter)
qed

lemma count_unreferenced:
  assumes "db_ok d" and "\<not> (\<exists>p \<in> set (pokemons d). row_id p = q)"
  shows "pokemonType_count d q = 0"
proof -
  from assms have "\<forall>pt \<in> set (pokemonTypes d). pokemonId pt \<noteq> q"
    unfolding db_ok_def by metis
  then show ?thesis by (simp add: pokemonType_count_def)
qed

subsection \<open>What a successful transaction did\<close>

lemma secondary_insert_Inr:
  assumes "secondary_insert tx pid s = Inr tx'"
  shows "(\<not> truthy s \<and> tx' = tx) \<or>
         (truthy s \<and> (\<exists>str r. s = Some str \<and>
            pokemonType_create tx pid (parseInt str) = Inr (r, tx')))"
  using assms by (cases s) (auto split: if_splits sum.splits)

lemma replace_type_Inr:
  assumes "replace_type tx pid nf s = Inr tx'"
  shows "(\<not> truthy s \<and> tx' = tx) \<or>
         (truthy s \<and> (\<exists>str r. s = Some str \<and>
            pokemonType_create tx pid (parseInt str) = Inr (r, tx')))"
  using assms by (cases s) (auto split: if_splits sum.splits option.splits)

lemma create_tx_Inr:
  assumes "create_tx data d = Inr (p, d')"
  shows "\<exists>d1 d2 r.
           pokemon_create d (c_name data) (num_or_null (c_height data))
             (num_or_null (c_weight data)) (str_or_null (c_description data))
             (str_or_null (c_imageUrl data)) (c_baseHp data) (c_baseAttack data)
             (c_baseDefense data) (c_baseSpeed data) = Inr (p, d1) \<and>
           pokemonType_create d1 (row_id p) (parseInt (c_primaryTypeId data)) = Inr (r, d2) \<and>
           secondary_insert d2 (row_id p) (c_secondaryTypeId data) = Inr d'"
  using assms by (auto simp: create_tx_def split: sum.splits)

lemma update_tx_Inr:
  assumes "update_tx i data d = Inr (p, d')"
  shows "\<exists>d1. pokemon_update d i data = Inr (p, d1) \<and>
           ((\<not> truthy (u_primaryTypeId data) \<and> \<not> truthy (u_secondaryTypeId data) \<and> d' = d1) \<or>
            ((truthy (u_primaryTypeId data) \<or> truthy (u_secondaryTypeId data)) \<and>
             (\<exists>d2. replace_type (pokemonType_deleteMany d1 i) i PrimaryTypeNotFound
                      (u_primaryTypeId data) = Inr d2 \<and>
                    replace_type d2 i SecondaryTypeNotFound (u_secondaryTypeId data) = Inr d')))"
  using assms by (auto simp: update_tx_def split: sum.splits if_splits)

lemma create_store:
  "snd (create d data) = d \<or> (\<exists>p. create_tx data d = Inr (p, snd (create d data)))"
  by (auto simp: create_def transaction_def split: option.splits sum.splits prod.splits)

lemma update_store:
  "snd (update d i data) = d \<or> (\<exists>p. update_tx i data d = Inr (p, snd (update d i data)))"
  by (auto simp: update_def transaction_def split: option.splits sum.splits prod.splits)

lemma delete_store:
  "snd (delete d i) = d \<or>
   pokemon_delete (pokemonType_deleteMany d i) i = Inr (snd (delete d i))"
  by (auto simp: delete_def delete_tx_def transaction_def
      split: option.splits sum.splits prod.splits)

lemma addType_store:
  "snd (addType d pid tid) = d \<or>
   (pokemonType_count d pid < 2 \<and> (\<exists>h. findById d pid = Inr h) \<and>
    (\<exists>r. pokemonType_create d pid (Some tid) = Inr (r, snd (addType d pid tid))))"
  by (auto simp: addType_def split: option.splits sum.splits prod.splits)

lemma removeType_store:
  "snd (removeType d pid tid) = d \<or>
   (2 \<le> pokemonType_count d pid \<and> (\<exists>h. findById d pid = Inr h) \<and>
    pokemonType_delete d pid tid = Inr (snd (removeType d pid tid)))"
  by (auto simp: removeType_def split: option.splits sum.splits prod.splits)

subsection \<open>Every operation keeps the invariant\<close>

lemma pokemons_pokemonType_create:
  "pokemonType_create d pid tid = Inr (r, d') \<Longrightarrow> pokemons d' = pokemons d"
  by (auto dest!: pokemonType_create_Inr)

lemma optional_insert_effect:
  assumes "(\<not> truthy s \<and> tx' = tx) \<or>
           (truthy s \<and> (\<exists>str r. s = Some str \<and>
              pokemonType_create tx pid (parseInt str) = Inr (r, tx')))"
  shows "pokemons tx' = pokemons tx"
    and "db_ok tx \<Longrightarrow> db_ok tx'"
    and "pokemonType_count tx' q =
           (if q = pid \<and> truthy s then Suc (pokemonType_count tx pid)
            else pokemonType_count tx q)"
  using assms
  by (auto simp: pokemons_pokemonType_create count_pokemonType_create
      intro: db_ok_pokemonType_create)

lemma inv_create_tx:
  assumes ok: "db_ok d" and inv: "cardinality_inv d"
    and tx: "create_tx data d = Inr (p, d')"
  shows "db_ok d' \<and> cardinality_inv d'"
proof -
  from create_tx_Inr [OF tx] obtain d1 d2 r where
    c1: "pokemon_create d (c_name data) (num_or_null (c_height data))
           (num_or_null (c_weight data)) (str_or_null (c_description data))
           (str_or_null (c_imageUrl data)) (c_baseHp data) (c_baseAttack data)
           (c_baseDefense data) (c_baseSpeed data) = Inr (p, d1)" and
    c2: "pokemonType_create d1 (row_id p) (parseInt (c_primaryTypeId data)) = Inr (r, d2)" and
    c3: "secondary_insert d2 (row_id p) (c_secondaryTypeId data) = Inr d'"
    by blast
  note e3 = optional_insert_effect [OF secondary_insert_Inr [OF c3]]
  from pokemon_create_Inr [OF c1] have
    pid: "row_id p = pokemon_seq d + 1" and
    d1: "d1 = d\<lparr>pokemons := pokemons d @ [p], pokemon_seq := pokemon_seq d + 1\<rparr>"
    by auto
  have ok1: "db_ok d1" by (rule db_ok_pokemon_create [OF ok c1])
  have ok2: "db_ok d2" by (rule db_ok_pokemonType_create [OF ok1 c2])
  have ok3: "db_ok d'" by (rule e3(2) [OF ok2])
  have fresh: "\<not> (\<exists>q \<in> set (pokemons d). row_id q = row_id p)"
    using ok pid by (fastforce simp: db_ok_def)
  have zero: "pokemonType_count d (row_id p) = 0"
    by (rule count_unreferenced [OF ok fresh])
  have cnt1: "pokemonType_count d1 q = pokemonType_count d q" for q
    by (simp add: d1 pokemonType_count_def)
  have rows: "pokemons d' = pokemons d @ [p]"
    using e3(1) pokemons_pokemonType_create [OF c2] d1 by simp
  have new: "pokemonType_count d' (row_id p) = 1 \<or> pokemonType_count d' (row_id p) = 2"
    using e3(3) [of "row_id p"] count_pokemonType_create [OF c2, of "row_id p"] cnt1 zero
    by auto
  have old: "pokemonType_count d' (row_id q) = pokemonType_count d (row_id q)"
    if "q \<in> set (pokemons d)" for q
  proof -
    from that fresh have "row_id q \<noteq> row_id p" by blast
    then show ?thesis
      using e3(3) [of "row_id q"] count_pokemonType_create [OF c2, of "row_id q"] cnt1
      by simp
  qed
  from inv old new rows have "cardinality_inv d'"
    by (auto simp: cardinality_inv_def)
  with ok3 show ?thesis by simp
qed

lemma inv_update_tx:
  assumes ok: "db_ok d" and inv: "cardinality_inv d"
    and tx: "update_tx i data d = Inr (p, d')"
  shows "db_ok d' \<and> cardinality_inv d'"
proof -
  from update_tx_Inr [OF tx] obtain d1 where
    u1: "pokemon_update d i data = Inr (p, d1)" and
    u2: "(\<not> truthy (u_primaryTypeId data) \<and> \<not> truthy (u_secondaryTypeId data) \<and> d' = d1) \<or>
         ((truthy (u_primaryTypeId data) \<or> truthy (u_secondaryTypeId data)) \<and>
          (\<exists>d2. replace_type (pokemonType_deleteMany d1 i) i PrimaryTypeNotFound
                   (u_primaryTypeId data) = Inr d2 \<and>
                 replace_type d2 i SecondaryTypeNotFound (u_secondaryTypeId data) = Inr d'))"
    by blast
  have ok1: "db_ok d1" by (rule db_ok_pokemon_update [OF ok u1])
  from pokemon_update_Inr [OF u1] have
    d1: "d1 = d\<lparr>pokemons :=
                  map (\<lambda>q. if row_id q = i then updateData data q else q) (pokemons d)\<rparr>"
    by simp
  have ids1: "map row_id (pokemons d1) = map row_id (pokemons d)"
    by (simp add: d1 map_row_id_update del: map_map)
  have cnt1: "pokemonType_count d1 q = pokemonType_count d q" for q
    by (simp add: d1 pokemonType_count_def)
  have inv1: "cardinality_inv d1"
    unfolding cardinality_inv_def
  proof
    fix q assume "q \<in> set (pokemons d1)"
    then have "row_id q \<in> set (map row_id (pokemons d1))" by simp
    then have "row_id q \<in> set (map row_id (pokemons d))" by (simp only: ids1)
    then obtain q' where "q' \<in> set (pokemons d)" "row_id q' = row_id q" by auto
    with inv show "pokemonType_count d1 (row_id q) = 1 \<or> pokemonType_count d1 (row_id q) = 2"
      by (auto simp: cardinality_inv_def cnt1)
  qed
  from u2 show ?thesis
  proof
    assume "\<not> truthy (u_primaryTypeId data) \<and> \<not> truthy (u_secondaryTypeId data) \<and> d' = d1"
    with ok1 inv1 show ?thesis by simp
  next
    assume a: "(truthy (u_primaryTypeId data) \<or> truthy (u_secondaryTypeId data)) \<and>
          (\<exists>d2. replace_type (pokemonType_deleteMany d1 i) i PrimaryTypeNotFound
                   (u_primaryTypeId data) = Inr d2 \<and>
                 replace_type d2 i SecondaryTypeNotFound (u_secondaryTypeId data) = Inr d')"
    then obtain d2 where
      r1: "replace_type (pokemonType_deleteMany d1 i) i PrimaryTypeNotFound
             (u_primaryTypeId data) = Inr d2" and
      r2: "replace_type d2 i SecondaryTypeNotFound (u_secondaryTypeId data) = Inr d'"
      by blast
    note e1 = optional_insert_effect [OF replace_type_Inr [OF r1]]
    note e2 = optional_insert_effect [OF replace_type_Inr [OF r2]]
    have ok': "db_ok d'"
      by (rule e2(2) [OF e1(2) [OF db_ok_deleteMany [OF ok1]]])
    have rows: "pokemons d' = pokemons d1"
      using e1(1) e2(1) by (simp add: pokemonType_deleteMany_def)
    have cnt: "pokemonType_count d' q =
                 (if q = i
                  then (if truthy (u_primaryTypeId data) then 1 else 0) +
                       (if truthy (u_secondaryTypeId data) then 1 else 0)
                  else pokemonType_count d1 q)" for q
      using e1(3) [of q] e2(3) [of q] e1(3) [of i] by (auto simp: count_deleteMany)
    have "cardinality_inv d'"
      unfolding cardinality_inv_def
    proof
      fix q assume "q \<in> set (pokemons d')"
      with rows inv1 have
        "pokemonType_count d1 (row_id q) = 1 \<or> pokemonType_count d1 (row_id q) = 2"
        by (simp add: cardinality_inv_def)
      with a show "pokemonType_count d' (row_id q) = 1 \<or> pokemonType_count d' (row_id q) = 2"
        by (auto simp: cnt)
    qed
    with ok' show ?thesis by simp
  qed
qed

lemma findById_Inr_exists:
  "findById d i = Inr h \<Longrightarrow> \<exists>p \<in> set (pokemons d). row_id p = i"
  by (auto simp: findById_def pokemon_findUnique_id_def split: option.splits dest: find_Some_set)

lemma inv_delete_tx:
  assumes ok: "db_ok d" and inv: "cardinality_inv d"
    and tx: "pokemon_delete (pokemonType_deleteMany d i) i = Inr d'"
  shows "db_ok d' \<and> cardinality_inv d'"
proof -
  have ok': "db_ok d'"
    by (rule db_ok_pokemon_delete [OF db_ok_deleteMany [OF ok] tx])
  from pokemon_delete_Inr [OF tx] have
    d': "d' = (pokemonType_deleteMany d i)\<lparr>pokemons :=
               filter (\<lambda>p. row_id p \<noteq> i) (pokemons d)\<rparr>"
    by (simp add: pokemonType_deleteMany_def)
  have cnt: "pokemonType_count d' q = pokemonType_count (pokemonType_deleteMany d i) q" for q
    by (simp add: d' pokemonType_count_def)
  have "cardinality_inv d'"
    unfolding cardinality_inv_def
  proof
    fix q assume "q \<in> set (pokemons d')"
    with d' have "q \<in> set (pokemons d)" and "row_id q \<noteq> i" by auto
    with inv show "pokemonType_count d' (row_id q) = 1 \<or> pokemonType_count d' (row_id q) = 2"
      by (simp add: cardinality_inv_def cnt count_deleteMany)
  qed
  with ok' show ?thesis by simp
qed

lemma inv_addType_insert:
  assumes ok: "db_ok d" and inv: "cardinality_inv d"
    and lt: "pokemonType_count d pid < 2"
    and ex: "findById d pid = Inr h"
    and ins: "pokemonType_create d pid (Some tid) = Inr (r, d')"
  shows "db_ok d' \<and> cardinality_inv d'"
proof -
  have ok': "db_ok d'" by (rule db_ok_pokemonType_create [OF ok ins])
  from findById_Inr_exists [OF ex] inv have
    one: "pokemonType_count d pid = 1 \<or> pokemonType_count d pid = 2"
    by (auto simp: cardinality_inv_def)
  have "cardinality_inv d'"
    unfolding cardinality_inv_def
  proof
    fix q assume "q \<in> set (pokemons d')"
    then have "q \<in> set (pokemons d)"
      by (simp add: pokemons_pokemonType_create [OF ins])
    with inv have "pokemonType_count d (row_id q) = 1 \<or> pokemonType_count d (row_id q) = 2"
      by (simp add: cardinality_inv_def)
    with one lt show "pokemonType_count d' (row_id q) = 1 \<or> pokemonType_count d' (row_id q) = 2"
      by (auto simp: count_pokemonType_create [OF ins])
  qed
  with ok' show ?thesis by simp
qed

lemma inv_removeType_delete:
  assumes ok: "db_ok d" and inv: "cardinality_inv d"
    and ge: "2 \<le> pokemonType_count d pid"
    and del: "pokemonType_delete d pid tid = Inr d'"
  shows "db_ok d' \<and> cardinality_inv d'"
proof -
  have ok': "db_ok d'" by (rule db_ok_pokemonType_delete [OF ok del])
  from ok have dis: "distinct (pokemonTypes d)" by (simp add: db_ok_def)
  note c = count_pokemonType_delete [OF dis del]
  from pokemonType_delete_Inr [OF del] have rows: "pokemons d' = pokemons d" by auto
  have "cardinality_inv d'"
    unfolding cardinality_inv_def
  proof
    fix q assume "q \<in> set (pokemons d')"
    with rows inv have
      q: "pokemonType_count d (row_id q) = 1 \<or> pokemonType_count d (row_id q) = 2"
      by (simp add: cardinality_inv_def)
    show "pokemonType_count d' (row_id q) = 1 \<or> pokemonType_count d' (row_id q) = 2"
    proof (cases "row_id q = pid")
      case True
      with q ge c(1) show ?thesis by auto
    next
      case False
      with q c(2) [of "row_id q"] show ?thesis by simp
    qed
  qed
  with ok' show ?thesis by simp
qed

lemma inv_step:
  assumes "db_ok d" and "cardinality_inv d"
  shows "db_ok (step d x) \<and> cardinality_inv (step d x)"
proof (cases x)
  case (Create data)
  with assms create_store [of d data] show ?thesis
    by (auto dest: inv_create_tx)
next
  case (Update i data)
  with assms update_store [of d i data] show ?thesis
    by (auto dest: inv_update_tx)
next
  case (Delete i)
  with assms delete_store [of d i] show ?thesis
    by (auto dest: inv_delete_tx)
next
  case (AddType pid tid)
  with assms addType_store [of d pid tid] show ?thesis
    by (auto dest: inv_addType_insert)
next
  case (RemoveType pid tid)
  with assms removeType_store [of d pid tid] show ?thesis
    by (auto dest: inv_removeType_delete)
qed

lemma inv_run:
  "db_ok d \<Longrightarrow> cardinality_inv d \<Longrightarrow> db_ok (run d xs) \<and> cardinality_inv (run d xs)"
proof (induction xs arbitrary: d)
  case Nil
  then show ?case by simp
next
  case (Cons x xs)
  from inv_step [OF Cons.prems] have "db_ok (step d x)" "cardinality_inv (step d x)"
    by simp_all
  from Cons.IH [OF this] show ?case by simp
qed

section \<open>create with a name that is taken\<close>

text \<open>
  Claim C2. When the name of the input is the name of an entity of the store, \<open>create\<close>
  fails with the name error, whose kind is Conflict, and the store after the call is the
  store before it: no entity row and no assignment row is inserted.
\<close>

theorem create_existing_name_conflict:
  assumes "\<exists>p \<in> set (pokemons d). row_name p = c_name data"
  shows "create d data = (Inl (NameTaken (c_name data)), d) \<and>
         kind_of (NameTaken (c_name data)) = Conflict"
proof -
  from assms have "find (\<lambda>p. row_name p = c_name data) (pokemons d) \<noteq> None"
    by (simp add: find_None_set)
  then obtain q where "pokemon_findUnique_name d (c_name data) = Some q"
    by (auto simp: pokemon_findUnique_name_def)
  then show ?thesis by (simp add: create_def)
qed

theorem create_existing_name_conflict_witness:
  "create ex_db (ex_input ''charmander'' ''1'' None) = (Inl (NameTaken ''charmander''), ex_db)"
proof -
  have h: "\<exists>p \<in> set (pokemons ex_db). row_name p = c_name (ex_input ''charmander'' ''1'' None)"
    by (simp add: ex_db_def ex_input_def ex_row_def)
  show ?thesis using create_existing_name_conflict [OF h] by (simp add: ex_input_def)
qed

section \<open>removeType\<close>

text \<open>
  Claim C7. When the entity exists and has exactly one assignment, \<open>removeType\<close> with any
  label identifier fails with the lower-bound error, whose kind is InvariantViolation, and
  the store is unchanged: the entity still has its one assignment.
\<close>

theorem removeType_single_rejected:
  assumes "\<exists>p \<in> set (pokemons d). row_id p = pid"
    and "pokemonType_count d pid = 1"
  shows "removeType d pid tid = (Inl MinTypes, d) \<and> kind_of MinTypes = InvariantViolation \<and>
         pokemonType_count (snd (removeType d pid tid)) pid = 1"
proof -
  from assms(1) obtain h where "findById d pid = Inr h"
    using findById_exists by blast
  with assms(2) show ?thesis by (simp add: removeType_def)
qed

theorem removeType_single_rejected_witness:
  "removeType ex_db 2 1 = (Inl MinTypes, ex_db) \<and>
   pokemonType_count (snd (removeType ex_db 2 1)) 2 = 1"
proof -
  have h1: "\<exists>p \<in> set (pokemons ex_db). row_id p = 2"
    by (simp add: ex_db_def ex_row_def)
  have h2: "pokemonType_count ex_db 2 = 1"
    by (simp add: ex_db_def pokemonType_count_def)
  show ?thesis using removeType_single_rejected [OF h1 h2, of 1] by blast
qed

text \<open>
  Claim C10. When the entity exists and has two assignments, and the label identifier is
  not assigned to it (the label may exist or not), \<open>removeType\<close> passes the count check
  and the delete of the missing pair fails in the storage: the error is the storage error
  of a record that is not there, its kind is none of NotFound, Conflict and
  InvariantViolation, and the store is unchanged.
\<close>

theorem removeType_unassigned_storage_error:
  assumes "\<exists>p \<in> set (pokemons d). row_id p = pid"
    and "pokemonType_count d pid = 2"
    and "\<not> (\<exists>pt \<in> set (pokemonTypes d). pokemonId pt = pid \<and> typeId pt = tid)"
  shows "removeType d pid tid = (Inl (Storage RecordNotFound), d) \<and>
         kind_of (Storage RecordNotFound) = Internal"
proof -
  from assms(1) obtain h where "findById d pid = Inr h"
    using findById_exists by blast
  with assms(2,3) show ?thesis by (simp add: removeType_def pokemonType_delete_def)
qed

theorem removeType_unassigned_storage_error_witness:
  "removeType ex_db 1 1 = (Inl (Storage RecordNotFound), ex_db) \<and>
   removeType ex_db 1 99 = (Inl (Storage RecordNotFound), ex_db)"
proof -
  have h1: "\<exists>p \<in> set (pokemons ex_db). row_id p = 1"
    by (simp add: ex_db_def ex_row_def)
  have h2: "pokemonType_count ex_db 1 = 2"
    by (simp add: ex_db_def pokemonType_count_def)
  have h3: "\<not> (\<exists>pt \<in> set (pokemonTypes ex_db). pokemonId pt = 1 \<and> typeId pt = 1)"
    by (simp add: ex_db_def)
  have h4: "\<not> (\<exists>pt \<in> set (pokemonTypes ex_db). pokemonId pt = 1 \<and> typeId pt = 99)"
    by (simp add: ex_db_def)
  show ?thesis
    using removeType_unassigned_storage_error [OF h1 h2 h3]
      removeType_unassigned_storage_error [OF h1 h2 h4] by simp
qed

section \<open>The cardinality invariant\<close>

text \<open>
  Claim C1. Start from a store that satisfies its constraints and in which every entity
  has one or two assignments (a store with no entity is one). After any sequence of
  completed operations \<open>create\<close>, \<open>update\<close>, \<open>delete\<close>, \<open>addType\<close> and \<open>removeType\<close>,
  each of which succeeded or threw, every entity of the store has one or two assignments.
\<close>

theorem cardinality_invariant:
  assumes "db_ok d" and "cardinality_inv d"
    and "p \<in> set (pokemons (run d ops))"
  shows "pokemonType_count (run d ops) (row_id p) = 1 \<or>
         pokemonType_count (run d ops) (row_id p) = 2"
  using inv_run [OF assms(1,2), of ops] assms(3)
  by (simp add: cardinality_inv_def)


theorem cardinality_invariant_witness:
  "pokemonType_count (run ex_empty ex_ops) 1 = 1 \<or> pokemonType_count (run ex_empty ex_ops) 1 = 2"
proof -
  have h1: "db_ok ex_empty"
    by (simp add: db_ok_def ex_empty_def ex_types_def)
  have h2: "cardinality_inv ex_empty"
    by (simp add: cardinality_inv_def ex_empty_def)
  have h3: "(ex_row 1 ''squirtle'')\<lparr>row_baseHp := 44, row_baseAttack := 48,
              row_baseDefense := 65, row_baseSpeed := 43\<rparr> \<in> set (pokemons (run ex_empty ex_ops))"
    by code_simp
  show ?thesis using cardinality_invariant [OF h1 h2 h3] by (simp add: ex_row_def)
qed

section \<open>addType\<close>

lemma type_findUnique_Some:
  "type_findUnique d (Some t) = Inr None \<longleftrightarrow> \<not> (\<exists>ty \<in> set (types d). type_id ty = t)"
  by (simp add: type_findUnique_def find_None_set)

lemma type_findUnique_found:
  "\<exists>ty \<in> set (types d). type_id ty = t \<Longrightarrow>
   \<exists>ty. type_findUnique d (Some t) = Inr (Some ty) \<and> ty \<in> set (types d) \<and> type_id ty = t"
  by (cases "find (\<lambda>ty. type_id ty = t) (types d)")
     (auto simp: type_findUnique_def find_None_set dest: find_Some_set)

lemma pokemonType_findUnique_None:
  "pokemonType_findUnique d pid tid = None \<longleftrightarrow>
   \<not> (\<exists>pt \<in> set (pokemonTypes d). pokemonId pt = pid \<and> typeId pt = tid)"
  by (simp add: pokemonType_findUnique_def find_None_set)

lemma addType_missing_entity:
  assumes "\<not> (\<exists>p \<in> set (pokemons d). row_id p = pid)"
  shows "addType d pid tid = (Inl PokemonNotFound, d)"
  using findById_missing [OF assms] by (simp add: addType_def)

lemma addType_missing_label:
  assumes "\<exists>p \<in> set (pokemons d). row_id p = pid"
    and "\<not> (\<exists>ty \<in> set (types d). type_id ty = tid)"
  shows "addType d pid tid = (Inl TypeNotFound, d)"
proof -
  from assms(1) obtain h where "findById d pid = Inr h" using findById_exists by blast
  moreover from assms(2) have "type_findUnique d (Some tid) = Inr None"
    by (simp add: type_findUnique_Some)
  ultimately show ?thesis by (simp add: addType_def)
qed

lemma addType_carried:
  assumes "db_ok d"
    and "\<exists>pt \<in> set (pokemonTypes d). pokemonId pt = pid \<and> typeId pt = tid"
  shows "addType d pid tid = (Inl AlreadyHasType, d)"
proof -
  from assms have "\<exists>p \<in> set (pokemons d). row_id p = pid"
    and "\<exists>ty \<in> set (types d). type_id ty = tid"
    unfolding db_ok_def by metis+
  then obtain h ty where "findById d pid = Inr h"
    and "type_findUnique d (Some tid) = Inr (Some ty)"
    using findById_exists type_findUnique_found by blast
  moreover from assms(2) obtain pt where "pokemonType_findUnique d pid tid = Some pt"
    using pokemonType_findUnique_None [of d pid tid]
    by (cases "pokemonType_findUnique d pid tid") auto
  ultimately show ?thesis by (simp add: addType_def)
qed

lemma addType_full:
  assumes "\<exists>p \<in> set (pokemons d). row_id p = pid"
    and "\<exists>ty \<in> set (types d). type_id ty = tid"
    and "\<not> (\<exists>pt \<in> set (pokemonTypes d). pokemonId pt = pid \<and> typeId pt = tid)"
    and "pokemonType_count d pid = 2"
  shows "addType d pid tid = (Inl MaxTypes, d)"
proof -
  from assms(1,2) obtain h ty where "findById d pid = Inr h"
    and "type_findUnique d (Some tid) = Inr (Some ty)"
    using findById_exists type_findUnique_found by blast
  moreover from assms(3) have "pokemonType_findUnique d pid tid = None"
    by (simp add: pokemonType_findUnique_None)
  ultimately show ?thesis using assms(4) by (simp add: addType_def)
qed

text \<open>
  Claim C6, as the service implements it. \<open>addType\<close> checks in this order: the entity,
  the label, the pair, the count. So it fails with the missing-entity error when the
  entity does not exist, with the missing-label error when the entity exists and the label
  does not (both of kind NotFound), with the error of kind Conflict when the entity
  carries the label, and with the upper-bound error, of kind InvariantViolation, when the
  entity has two assignments and the label exists and is not one of them. The store is
  unchanged in each case.
\<close>

theorem addType_failures:
  assumes ok: "db_ok d"
  shows "(\<not> (\<exists>p \<in> set (pokemons d). row_id p = pid) \<longrightarrow>
            addType d pid tid = (Inl PokemonNotFound, d)) \<and>
         ((\<exists>p \<in> set (pokemons d). row_id p = pid) \<and>
          \<not> (\<exists>ty \<in> set (types d). type_id ty = tid) \<longrightarrow>
            addType d pid tid = (Inl TypeNotFound, d)) \<and>
         ((\<exists>pt \<in> set (pokemonTypes d). pokemonId pt = pid \<and> typeId pt = tid) \<longrightarrow>
            addType d pid tid = (Inl AlreadyHasType, d)) \<and>
         ((\<exists>p \<in> set (pokemons d). row_id p = pid) \<and>
          (\<exists>ty \<in> set (types d). type_id ty = tid) \<and>
          \<not> (\<exists>pt \<in> set (pokemonTypes d). pokemonId pt = pid \<and> typeId pt = tid) \<and>
          pokemonType_count d pid = 2 \<longrightarrow>
            addType d pid tid = (Inl MaxTypes, d)) \<and>
         kind_of PokemonNotFound = NotFound \<and> kind_of TypeNotFound = NotFound \<and>
         kind_of AlreadyHasType = Conflict \<and> kind_of MaxTypes = InvariantViolation"
  using addType_missing_entity [of d pid tid] addType_missing_label [of d pid tid]
    addType_carried [OF ok, of pid tid] addType_full [of d pid tid]
  by simp

theorem addType_failures_witness:
  "addType ex_db 7 1 = (Inl PokemonNotFound, ex_db) \<and>
   addType ex_db 1 99 = (Inl TypeNotFound, ex_db) \<and>
   addType ex_db 1 2 = (Inl AlreadyHasType, ex_db) \<and>
   addType ex_db 1 1 = (Inl MaxTypes, ex_db)"
proof -
  have ok: "db_ok ex_db"
    by (simp add: db_ok_def ex_db_def ex_row_def ex_types_def)
  have a1: "\<not> (\<exists>p \<in> set (pokemons ex_db). row_id p = 7)"
    by (simp add: ex_db_def ex_row_def)
  have a2: "(\<exists>p \<in> set (pokemons ex_db). row_id p = 1) \<and>
            \<not> (\<exists>ty \<in> set (types ex_db). type_id ty = 99)"
    by (simp add: ex_db_def ex_row_def ex_types_def)
  have a3: "\<exists>pt \<in> set (pokemonTypes ex_db). pokemonId pt = 1 \<and> typeId pt = 2"
    by (simp add: ex_db_def)
  have a4: "(\<exists>p \<in> set (pokemons ex_db). row_id p = 1) \<and>
            (\<exists>ty \<in> set (types ex_db). type_id ty = 1) \<and>
            \<not> (\<exists>pt \<in> set (pokemonTypes ex_db). pokemonId pt = 1 \<and> typeId pt = 1) \<and>
            pokemonType_count ex_db 1 = 2"
    by (simp add: ex_db_def ex_row_def ex_types_def pokemonType_count_def)
  have c1: "addType ex_db 7 1 = (Inl PokemonNotFound, ex_db)"
    using addType_failures [OF ok, of 7 1] a1 by blast
  have c2: "addType ex_db 1 99 = (Inl TypeNotFound, ex_db)"
    using addType_failures [OF ok, of 1 99] a2 by blast
  have c3: "addType ex_db 1 2 = (Inl AlreadyHasType, ex_db)"
    using addType_failures [OF ok, of 1 2] a3 by blast
  have c4: "addType ex_db 1 1 = (Inl MaxTypes, ex_db)"
    using addType_failures [OF ok, of 1 1] a4 by blast
  from c1 c2 c3 c4 show ?thesis by (intro conjI)
qed

text \<open>
  Claim C6, as stated, asks for InvariantViolation for any label identifier that an entity
  with two assignments does not carry. Entity 1 of the example store has two assignments
  and does not carry 99, which is the identifier of no label: \<open>addType\<close> fails with the
  missing-label error, of kind NotFound.
\<close>

theorem addType_missing_label_counterexample:
  "pokemonType_count ex_db 1 = 2 \<and> pokemonType_findUnique ex_db 1 99 = None \<and>
   addType ex_db 1 99 = (Inl TypeNotFound, ex_db) \<and>
   kind_of TypeNotFound \<noteq> InvariantViolation"
  by (simp add: addType_def findById_def pokemon_findUnique_id_def type_findUnique_def
      pokemonType_findUnique_def pokemonType_count_def ex_db_def ex_row_def ex_types_def)


section \<open>create\<close>

lemma parseInt_empty [simp]: "parseInt [] = None"
  by (simp add: parseInt_def has_hex_prefix_def)

lemma parseInt_Some_nonempty: "parseInt s = Some t \<Longrightarrow> s \<noteq> []"
  by auto

lemma pokemon_findUnique_name_None:
  "pokemon_findUnique_name d n = None \<longleftrightarrow> \<not> (\<exists>p \<in> set (pokemons d). row_name p = n)"
  by (simp add: pokemon_findUnique_name_def find_None_set)

lemma no_assignment_beyond_seq:
  assumes "db_ok d"
  shows "\<not> (\<exists>pt \<in> set (pokemonTypes d). pokemonId pt = pokemon_seq d + 1)"
proof
  assume "\<exists>pt \<in> set (pokemonTypes d). pokemonId pt = pokemon_seq d + 1"
  then obtain pt where "pt \<in> set (pokemonTypes d)" "pokemonId pt = pokemon_seq d + 1" by blast
  with assms obtain p where "p \<in> set (pokemons d)" "row_id p = pokemon_seq d + 1"
    unfolding db_ok_def by metis
  with assms show False unfolding db_ok_def by fastforce
qed

lemma find_append_new:
  "find P xs = None \<Longrightarrow> P y \<Longrightarrow> find P (xs @ [y]) = Some y"
  by (induction xs) (auto split: if_splits)

lemma create_Inr:
  assumes "create d data = (Inr h, d')"
  shows "\<exists>q. create_tx data d = Inr (q, d') \<and> findById d' (row_id q) = Inr h"
  using assms
  by (auto simp: create_def transaction_def split: option.splits sum.splits prod.splits)

lemma create_tx_rows:
  assumes "create_tx data d = Inr (p, d')"
  shows "pokemons d' = pokemons d @ [p]"
    and "row_id p = pokemon_seq d + 1"
    and "row_name p = c_name data"
    and "row_height p = num_or_null (c_height data)"
    and "row_weight p = num_or_null (c_weight data)"
    and "row_description p = str_or_null (c_description data)"
    and "row_imageUrl p = str_or_null (c_imageUrl data)"
proof -
  from create_tx_Inr [OF assms] obtain d1 d2 r where
    c1: "pokemon_create d (c_name data) (num_or_null (c_height data))
           (num_or_null (c_weight data)) (str_or_null (c_description data))
           (str_or_null (c_imageUrl data)) (c_baseHp data) (c_baseAttack data)
           (c_baseDefense data) (c_baseSpeed data) = Inr (p, d1)" and
    c2: "pokemonType_create d1 (row_id p) (parseInt (c_primaryTypeId data)) = Inr (r, d2)" and
    c3: "secondary_insert d2 (row_id p) (c_secondaryTypeId data) = Inr d'"
    by blast
  note e3 = optional_insert_effect [OF secondary_insert_Inr [OF c3]]
  note pc = pokemon_create_Inr [OF c1]
  from pc have "pokemons d1 = pokemons d @ [p]" by simp
  with e3(1) pokemons_pokemonType_create [OF c2]
  show "pokemons d' = pokemons d @ [p]" by simp
  from pc show "row_id p = pokemon_seq d + 1" by simp
  from pc show "row_name p = c_name data" by simp
  from pc show "row_height p = num_or_null (c_height data)" by simp
  from pc show "row_weight p = num_or_null (c_weight data)" by simp
  from pc show "row_description p = str_or_null (c_description data)" by simp
  from pc show "row_imageUrl p = str_or_null (c_imageUrl data)" by simp
qed

lemma findById_Inr_row:
  assumes "findById d i = Inr (p, ts)"
  shows "p \<in> set (pokemons d) \<and> row_id p = i \<and> find (\<lambda>q. row_id q = i) (pokemons d) = Some p"
  using assms
  by (auto simp: findById_def pokemon_findUnique_id_def include_PokemonType_def
      split: option.splits dest: find_Some_set)

text \<open>
  Claim C9. When \<open>create\<close> succeeds on a consistent store, the entity it returns is the
  row it stored, a new row with the name of the input; a height or weight of 0 in the
  input is stored as null, and so is an empty description or image reference.
\<close>

theorem create_falsy_optionals_null:
  assumes ok: "db_ok d" and cr: "create d data = (Inr (p, ts), d')"
  shows "p \<in> set (pokemons d') \<and> p \<notin> set (pokemons d) \<and> row_name p = c_name data \<and>
         (c_height data = Some 0 \<longrightarrow> row_height p = None) \<and>
         (c_weight data = Some 0 \<longrightarrow> row_weight p = None) \<and>
         (c_description data = Some [] \<longrightarrow> row_description p = None) \<and>
         (c_imageUrl data = Some [] \<longrightarrow> row_imageUrl p = None)"
proof -
  from create_Inr [OF cr] obtain q where
    tx: "create_tx data d = Inr (q, d')" and fb: "findById d' (row_id q) = Inr (p, ts)"
    by blast
  note rows = create_tx_rows [OF tx]
  from ok rows(2) have fresh: "\<not> (\<exists>x \<in> set (pokemons d). row_id x = row_id q)"
    unfolding db_ok_def by fastforce
  then have "find (\<lambda>x. row_id x = row_id q) (pokemons d) = None"
    by (simp add: find_None_set)
  then have "find (\<lambda>x. row_id x = row_id q) (pokemons d @ [q]) = Some q"
    by (rule find_append_new) simp
  with rows(1) have fq: "find (\<lambda>x. row_id x = row_id q) (pokemons d') = Some q"
    by simp
  have fp: "find (\<lambda>x. row_id x = row_id q) (pokemons d') = Some p"
    using findById_Inr_row [OF fb] by blast
  from trans [OF fp [symmetric] fq] have pq: "p = q"
    by (simp only: option.inject)
  from fresh have "q \<notin> set (pokemons d)" by blast
  moreover from rows(1) have "q \<in> set (pokemons d')" by simp
  ultimately show ?thesis
    unfolding pq using rows(3-7) by simp
qed

theorem create_falsy_optionals_null_witness:
  "create ex_db (ex_input ''ditto'' ''1'' None) =
     (Inr (ex_ditto, [(\<lparr>pokemonId = 3, typeId = 1\<rparr>, \<lparr>type_id = 1, type_name = ''fire''\<rparr>)]),
      ex_db_ditto) \<and>
   ex_ditto \<in> set (pokemons ex_db_ditto) \<and> ex_ditto \<notin> set (pokemons ex_db) \<and>
   row_height ex_ditto = None \<and> row_weight ex_ditto = None \<and>
   row_description ex_ditto = None \<and> row_imageUrl ex_ditto = None"
proof -
  have ok: "db_ok ex_db"
    by (simp add: db_ok_def ex_db_def ex_row_def ex_types_def)
  have cr: "create ex_db (ex_input ''ditto'' ''1'' None) =
     (Inr (ex_ditto, [(\<lparr>pokemonId = 3, typeId = 1\<rparr>, \<lparr>type_id = 1, type_name = ''fire''\<rparr>)]),
      ex_db_ditto)"
    by code_simp
  have inp: "c_height (ex_input ''ditto'' ''1'' None) = Some 0"
    "c_weight (ex_input ''ditto'' ''1'' None) = Some 0"
    "c_description (ex_input ''ditto'' ''1'' None) = Some []"
    "c_imageUrl (ex_input ''ditto'' ''1'' None) = Some []"
    by (simp_all add: ex_input_def)
  from create_falsy_optionals_null [OF ok cr] cr inp show ?thesis
    by blast
qed

lemma create_name_taken:
  assumes "\<exists>p \<in> set (pokemons d). row_name p = c_name data"
  shows "create d data = (Inl (NameTaken (c_name data)), d)"
proof -
  from assms obtain q where "pokemon_findUnique_name d (c_name data) = Some q"
    by (cases "pokemon_findUnique_name d (c_name data)")
       (auto simp: pokemon_findUnique_name_None)
  then show ?thesis by (simp add: create_def)
qed

lemma create_equal_references_free_name:
  assumes ok: "db_ok d"
    and free: "\<not> (\<exists>p \<in> set (pokemons d). row_name p = c_name data)"
    and same: "c_secondaryTypeId data = Some (c_primaryTypeId data)"
    and parse: "parseInt (c_primaryTypeId data) = Some t"
    and label: "\<exists>ty \<in> set (types d). type_id ty = t"
  shows "create d data = (Inl (Storage (UniqueConstraint PokemonType_pokemonId_typeId)), d)"
proof -
  define s where "s = c_primaryTypeId data"
  have ne: "s \<noteq> []" using parse s_def by auto
  from label obtain ty where
    ty: "find (\<lambda>ty. type_id ty = t) (types d) = Some ty"
    by (cases "find (\<lambda>ty. type_id ty = t) (types d)") (auto simp: find_None_set)
  have lookup: "type_findUnique d (Some t) = Inr (Some ty)"
    by (simp add: type_findUnique_def ty)
  have byname: "pokemon_findUnique_name d (c_name data) = None"
    using free by (simp add: pokemon_findUnique_name_None)
  have sec: "secondary_lookup d (Some s) = Inr ()"
    using ne parse lookup by (simp add: s_def)
  define newPokemon where
    "newPokemon =
       \<lparr>row_id = pokemon_seq d + 1, row_name = c_name data,
        row_height = num_or_null (c_height data), row_weight = num_or_null (c_weight data),
        row_description = str_or_null (c_description data),
        row_imageUrl = str_or_null (c_imageUrl data),
        row_baseHp = c_baseHp data, row_baseAttack = c_baseAttack data,
        row_baseDefense = c_baseDefense data, row_baseSpeed = c_baseSpeed data\<rparr>"
  define d1 where
    "d1 = d\<lparr>pokemons := pokemons d @ [newPokemon], pokemon_seq := pokemon_seq d + 1\<rparr>"
  have nid: "row_id newPokemon = pokemon_seq d + 1"
    by (simp add: newPokemon_def)
  have c1: "pokemon_create d (c_name data) (num_or_null (c_height data))
           (num_or_null (c_weight data)) (str_or_null (c_description data))
           (str_or_null (c_imageUrl data)) (c_baseHp data) (c_baseAttack data)
           (c_baseDefense data) (c_baseSpeed data) = Inr (newPokemon, d1)"
    using free by (simp add: pokemon_create_def newPokemon_def d1_def Let_def)
  let ?row = "\<lparr>pokemonId = pokemon_seq d + 1, typeId = t\<rparr>"
  have c2: "pokemonType_create d1 (row_id newPokemon) (Some t) =
              Inr ((?row, ty), d1\<lparr>pokemonTypes := pokemonTypes d @ [?row]\<rparr>)"
    using no_assignment_beyond_seq [OF ok] ty nid
    by (simp add: pokemonType_create_def d1_def)
  have c3: "pokemonType_create (d1\<lparr>pokemonTypes := pokemonTypes d @ [?row]\<rparr>)
              (row_id newPokemon) (Some t) =
              Inl (Storage (UniqueConstraint PokemonType_pokemonId_typeId))"
    by (simp add: pokemonType_create_def nid)
  have tx: "create_tx data d = Inl (Storage (UniqueConstraint PokemonType_pokemonId_typeId))"
    using c1 c2 c3 ne parse same by (simp add: create_tx_def s_def)
  show ?thesis
    using byname lookup sec tx parse same
    by (simp add: create_def transaction_def s_def)
qed

text \<open>
  Claim C3. On a consistent store, when the secondary reference is the same string as
  the primary reference, which parses to the identifier of an existing label, \<open>create\<close>
  fails and the store is the one before the call: no entity with a single assignment is
  created. When the name is free, the failure is the one of the second insert of the pair
  (new entity, label), which breaks the uniqueness constraint of the assignment pairs and
  rolls the transaction back; when the name is taken, \<open>create\<close> has failed on the name
  before.
\<close>

theorem create_equal_references_rejected:
  assumes ok: "db_ok d"
    and same: "c_secondaryTypeId data = Some (c_primaryTypeId data)"
    and parse: "parseInt (c_primaryTypeId data) = Some t"
    and label: "\<exists>ty \<in> set (types d). type_id ty = t"
  shows "(\<exists>e. create d data = (Inl e, d)) \<and>
         (\<not> (\<exists>p \<in> set (pokemons d). row_name p = c_name data) \<longrightarrow>
            create d data =
              (Inl (Storage (UniqueConstraint PokemonType_pokemonId_typeId)), d))"
proof (cases "\<exists>p \<in> set (pokemons d). row_name p = c_name data")
  case True
  from create_name_taken [OF True] True show ?thesis by simp
next
  case False
  from create_equal_references_free_name [OF ok False same parse label] False
  show ?thesis by simp
qed

theorem create_equal_references_rejected_witness:
  "create ex_db (ex_input ''ditto'' ''1'' (Some ''1'')) =
     (Inl (Storage (UniqueConstraint PokemonType_pokemonId_typeId)), ex_db)"
proof -
  have ok: "db_ok ex_db"
    by (simp add: db_ok_def ex_db_def ex_row_def ex_types_def)
  have free: "\<not> (\<exists>p \<in> set (pokemons ex_db).
                  row_name p = c_name (ex_input ''ditto'' ''1'' (Some ''1'')))"
    by (simp add: ex_db_def ex_row_def ex_input_def)
  have same: "c_secondaryTypeId (ex_input ''ditto'' ''1'' (Some ''1'')) =
                Some (c_primaryTypeId (ex_input ''ditto'' ''1'' (Some ''1'')))"
    by (simp add: ex_input_def)
  have parse: "parseInt (c_primaryTypeId (ex_input ''ditto'' ''1'' (Some ''1''))) = Some 1"
    by code_simp
  have label: "\<exists>ty \<in> set (types ex_db). type_id ty = 1"
    by (simp add: ex_db_def ex_types_def)
  from create_equal_references_rejected [OF ok same parse label] free
  show ?thesis by blast
qed


section \<open>update\<close>

subsection \<open>Replacing the assignments\<close>

lemma name_check_free:
  assumes "\<forall>n. u_name data = Some n \<longrightarrow>
             \<not> (\<exists>q \<in> set (pokemons d). row_id q \<noteq> i \<and> row_name q = n)"
  shows "name_check d i (u_name data) = Inr ()"
proof (cases "u_name data")
  case None
  then show ?thesis by simp
next
  case (Some n)
  show ?thesis
  proof (cases "pokemon_findUnique_name d n")
    case None
    with Some show ?thesis by simp
  next
    case (Some q)
    then have "q \<in> set (pokemons d)" "row_name q = n"
      by (auto simp: pokemon_findUnique_name_def dest: find_Some_set)
    with assms \<open>u_name data = Some n\<close> have "row_id q = i" by blast
    with Some \<open>u_name data = Some n\<close> show ?thesis by simp
  qed
qed

lemma pokemon_update_free:
  assumes ex: "\<exists>p \<in> set (pokemons d). row_id p = i"
    and free: "\<forall>n. u_name data = Some n \<longrightarrow>
                 \<not> (\<exists>q \<in> set (pokemons d). row_id q \<noteq> i \<and> row_name q = n)"
  shows "\<exists>p. pokemon_update d i data =
           Inr (p, d\<lparr>pokemons :=
                      map (\<lambda>q. if row_id q = i then updateData data q else q) (pokemons d)\<rparr>) \<and>
             row_id p = i"
proof -
  from ex obtain p where p: "find (\<lambda>p. row_id p = i) (pokemons d) = Some p"
    by (cases "find (\<lambda>p. row_id p = i) (pokemons d)") (auto simp: find_None_set)
  then have "row_id p = i" by (auto dest: find_Some_set)
  moreover have "\<not> (case u_name data of None \<Rightarrow> False
                   | Some n \<Rightarrow> \<exists>q \<in> set (pokemons d). row_id q \<noteq> i \<and> row_name q = n)"
    using free by (cases "u_name data") auto
  ultimately show ?thesis using p by (simp add: pokemon_update_def)
qed

lemma replace_type_unresolved:
  assumes "parseInt s = Some t" and "\<not> (\<exists>ty \<in> set (types tx). type_id ty = t)"
  shows "replace_type tx pid nf (Some s) = Inl nf"
proof -
  from assms(1) have "s \<noteq> []" by auto
  moreover from assms(2) have "type_findUnique tx (Some t) = Inr None"
    by (simp add: type_findUnique_Some)
  ultimately show ?thesis using assms(1) by simp
qed

lemma replace_type_resolved:
  assumes "parseInt s = Some t" and "\<exists>ty \<in> set (types tx). type_id ty = t"
    and "\<exists>p \<in> set (pokemons tx). row_id p = pid"
    and "\<not> (\<exists>pt \<in> set (pokemonTypes tx). pokemonId pt = pid \<and> typeId pt = t)"
  shows "replace_type tx pid nf (Some s) =
           Inr (tx\<lparr>pokemonTypes := pokemonTypes tx @ [\<lparr>pokemonId = pid, typeId = t\<rparr>]\<rparr>)"
proof -
  from assms(1) have ne: "s \<noteq> []" by auto
  from assms(2) obtain ty where ty: "find (\<lambda>ty. type_id ty = t) (types tx) = Some ty"
    by (cases "find (\<lambda>ty. type_id ty = t) (types tx)") (auto simp: find_None_set)
  then have "type_findUnique tx (Some t) = Inr (Some ty)"
    by (simp add: type_findUnique_def)
  moreover have "pokemonType_create tx pid (Some t) =
      Inr ((\<lparr>pokemonId = pid, typeId = t\<rparr>, ty),
           tx\<lparr>pokemonTypes := pokemonTypes tx @ [\<lparr>pokemonId = pid, typeId = t\<rparr>]\<rparr>)"
    using assms(3,4) ty by (simp add: pokemonType_create_def)
  ultimately show ?thesis using ne assms(1) by simp
qed

lemma update_Inr:
  assumes "update d i data = (Inr h, d')"
  shows "\<exists>p. update_tx i data d = Inr (p, d') \<and> findById d' (row_id p) = Inr h"
  using assms
  by (auto simp: update_def transaction_def split: option.splits sum.splits prod.splits)

lemma filter_own_after_deleteMany:
  "filter (\<lambda>pt. pokemonId pt = i)
     (filter (\<lambda>pt. pokemonId pt \<noteq> i) xs @ [\<lparr>pokemonId = i, typeId = t\<rparr>]) =
   [\<lparr>pokemonId = i, typeId = t\<rparr>]"
  by (induction xs) auto

lemma update_primary_only_store:
  assumes prim: "u_primaryTypeId data = Some s" and sec: "u_secondaryTypeId data = None"
    and parse: "parseInt s = Some t"
    and up: "update d i data = (Inr h, d')"
  shows "filter (\<lambda>pt. pokemonId pt = i) (pokemonTypes d') = [\<lparr>pokemonId = i, typeId = t\<rparr>]"
proof -
  from parse have ne: "s \<noteq> []" by auto
  from update_Inr [OF up] obtain p where tx: "update_tx i data d = Inr (p, d')" by blast
  have tp: "truthy (u_primaryTypeId data)" using prim ne by simp
  from update_tx_Inr [OF tx] tp obtain d1 d2 where
    u1: "pokemon_update d i data = Inr (p, d1)" and
    r1': "replace_type (pokemonType_deleteMany d1 i) i PrimaryTypeNotFound
            (u_primaryTypeId data) = Inr d2" and
    r2': "replace_type d2 i SecondaryTypeNotFound (u_secondaryTypeId data) = Inr d'"
    by blast
  from r1' prim have
    r1: "replace_type (pokemonType_deleteMany d1 i) i PrimaryTypeNotFound (Some s) = Inr d2"
    by (simp only:)
  from r2' sec have d': "d' = d2" by simp
  from replace_type_Inr [OF r1] ne obtain r where
    "pokemonType_create (pokemonType_deleteMany d1 i) i (parseInt s) = Inr (r, d2)"
    by auto
  from pokemonType_create_Inr [OF this] parse have
    "pokemonTypes d2 = pokemonTypes (pokemonType_deleteMany d1 i) @ [\<lparr>pokemonId = i, typeId = t\<rparr>]"
    by auto
  with d' show ?thesis
    by (simp add: pokemonType_deleteMany_def filter_own_after_deleteMany del: filter_filter)
qed

lemma exists_id_after_update:
  "(\<exists>p \<in> set (map (\<lambda>q. if row_id q = i then updateData data q else q) ps). row_id p = j) =
   (\<exists>p \<in> set ps. row_id p = j)"
  by (induction ps) auto

lemma update_tx_after_rows:
  assumes ex: "\<exists>p \<in> set (pokemons d). row_id p = i"
  shows "\<exists>p \<in> set (pokemons (pokemonType_deleteMany
           (d\<lparr>pokemons := map (\<lambda>q. if row_id q = i then updateData data q else q)
                 (pokemons d)\<rparr>) i)). row_id p = i"
proof -
  have "pokemons (pokemonType_deleteMany
           (d\<lparr>pokemons := map (\<lambda>q. if row_id q = i then updateData data q else q)
                 (pokemons d)\<rparr>) i) =
        map (\<lambda>q. if row_id q = i then updateData data q else q) (pokemons d)"
    by (simp add: pokemonType_deleteMany_def)
  with ex show ?thesis
    by (simp only: exists_id_after_update)
qed

lemma update_primary_unresolved:
  assumes ex: "\<exists>p \<in> set (pokemons d). row_id p = i"
    and free: "\<forall>n. u_name data = Some n \<longrightarrow>
                 \<not> (\<exists>q \<in> set (pokemons d). row_id q \<noteq> i \<and> row_name q = n)"
    and prim: "u_primaryTypeId data = Some s" and parse: "parseInt s = Some t"
    and missing: "\<not> (\<exists>ty \<in> set (types d). type_id ty = t)"
  shows "update d i data = (Inl PrimaryTypeNotFound, d)"
proof -
  from parse have ne: "s \<noteq> []" by auto
  from ex obtain h where h: "findById d i = Inr h" using findById_exists by blast
  note chk = name_check_free [OF free]
  from pokemon_update_free [OF ex free] obtain p where
    pu: "pokemon_update d i data =
           Inr (p, d\<lparr>pokemons :=
                      map (\<lambda>q. if row_id q = i then updateData data q else q) (pokemons d)\<rparr>)"
    by blast
  let ?d2 = "pokemonType_deleteMany
               (d\<lparr>pokemons := map (\<lambda>q. if row_id q = i then updateData data q else q)
                     (pokemons d)\<rparr>) i"
  have "types ?d2 = types d" by (simp add: pokemonType_deleteMany_def)
  with missing have "\<not> (\<exists>ty \<in> set (types ?d2). type_id ty = t)" by simp
  from replace_type_unresolved [OF parse this] have
    "replace_type ?d2 i PrimaryTypeNotFound (Some s) = Inl PrimaryTypeNotFound" .
  with pu prim ne have "update_tx i data d = Inl PrimaryTypeNotFound"
    by (simp add: update_tx_def)
  with h chk show ?thesis by (simp add: update_def transaction_def)
qed

lemma update_primary_only_succeeds:
  assumes ex: "\<exists>p \<in> set (pokemons d). row_id p = i"
    and free: "\<forall>n. u_name data = Some n \<longrightarrow>
                 \<not> (\<exists>q \<in> set (pokemons d). row_id q \<noteq> i \<and> row_name q = n)"
    and prim: "u_primaryTypeId data = Some s" and sec: "u_secondaryTypeId data = None"
    and parse: "parseInt s = Some t"
    and label: "\<exists>ty \<in> set (types d). type_id ty = t"
  shows "\<exists>h d'. update d i data = (Inr h, d')"
proof -
  from parse have ne: "s \<noteq> []" by auto
  from ex obtain h where h: "findById d i = Inr h" using findById_exists by blast
  note chk = name_check_free [OF free]
  from pokemon_update_free [OF ex free] obtain p where
    pu: "pokemon_update d i data =
           Inr (p, d\<lparr>pokemons :=
                      map (\<lambda>q. if row_id q = i then updateData data q else q) (pokemons d)\<rparr>)"
    and pid: "row_id p = i"
    by blast
  define d2 where "d2 = pokemonType_deleteMany
               (d\<lparr>pokemons := map (\<lambda>q. if row_id q = i then updateData data q else q)
                     (pokemons d)\<rparr>) i"
  have ty2: "\<exists>ty \<in> set (types d2). type_id ty = t"
    using label by (simp add: d2_def pokemonType_deleteMany_def)
  have ex2: "\<exists>p \<in> set (pokemons d2). row_id p = i"
    unfolding d2_def by (rule update_tx_after_rows [OF ex])
  have none2: "\<not> (\<exists>pt \<in> set (pokemonTypes d2). pokemonId pt = i \<and> typeId pt = t)"
    by (simp add: d2_def pokemonType_deleteMany_def)
  define d3 where "d3 = d2\<lparr>pokemonTypes := pokemonTypes d2 @ [\<lparr>pokemonId = i, typeId = t\<rparr>]\<rparr>"
  have r1: "replace_type d2 i PrimaryTypeNotFound (Some s) = Inr d3"
    unfolding d3_def by (rule replace_type_resolved [OF parse ty2 ex2 none2])
  have tx: "update_tx i data d = Inr (p, d3)"
    using pu prim sec ne r1 by (simp add: update_tx_def d2_def)
  from ex2 have "\<exists>p \<in> set (pokemons d3). row_id p = i" by (simp add: d3_def)
  then obtain h' where "findById d3 i = Inr h'" using findById_exists by blast
  with h chk tx pid show ?thesis by (simp add: update_def transaction_def)
qed

lemma name_free_iff:
  "name_free d i data =
     (\<forall>n. u_name data = Some n \<longrightarrow>
        \<not> (\<exists>q \<in> set (pokemons d). row_id q \<noteq> i \<and> row_name q = n))"
  by (cases "u_name data") (auto simp: name_free_def)

lemma update_tx_Inl_update:
  assumes "update_tx i data d = Inl e"
  shows "\<exists>e'. update d i data = (Inl e', d)"
  using assms
  by (auto simp: update_def transaction_def split: sum.splits prod.splits)

lemma types_after_pokemon_update:
  "pokemon_update d i data = Inr (p, d1) \<Longrightarrow> types d1 = types d \<and> pokemonTypes d1 = pokemonTypes d"
  by (auto dest!: pokemon_update_Inr)

lemma replace_type_not_resolved:
  assumes "s \<noteq> []" and "\<not> resolves tx s"
  shows "\<exists>e. replace_type tx pid nf (Some s) = Inl e"
proof (cases "parseInt s")
  case None
  with assms(1) show ?thesis by (simp add: type_findUnique_def)
next
  case (Some t)
  with assms(2) have "\<not> (\<exists>ty \<in> set (types tx). type_id ty = t)"
    by (simp add: resolves_def)
  from replace_type_unresolved [OF Some this] show ?thesis by blast
qed

lemma update_tx_not_resolved:
  assumes prim: "u_primaryTypeId data = Some s" and ne: "s \<noteq> []"
    and un: "\<not> resolves d s"
  shows "\<exists>e. update_tx i data d = Inl e"
proof (cases "pokemon_update d i data")
  case (Inl e)
  then show ?thesis by (simp add: update_tx_def)
next
  case (Inr r)
  obtain p d1 where r: "r = (p, d1)" by (cases r)
  from types_after_pokemon_update [OF Inr [unfolded r]] have "types d1 = types d" by simp
  then have "resolves (pokemonType_deleteMany d1 i) s = resolves d s"
    by (cases "parseInt s") (simp_all add: resolves_def pokemonType_deleteMany_def)
  with un have "\<not> resolves (pokemonType_deleteMany d1 i) s" by simp
  from replace_type_not_resolved [OF ne this] obtain e where
    "replace_type (pokemonType_deleteMany d1 i) i PrimaryTypeNotFound (Some s) = Inl e"
    by blast
  with Inr r prim ne show ?thesis by (simp add: update_tx_def)
qed

lemma update_not_resolved_fails:
  assumes prim: "u_primaryTypeId data = Some s" and ne: "s \<noteq> []"
    and un: "\<not> resolves d s"
  shows "\<exists>e. update d i data = (Inl e, d)"
proof -
  from update_tx_not_resolved [OF prim ne un] obtain e where "update_tx i data d = Inl e"
    by blast
  from update_tx_Inl_update [OF this] show ?thesis .
qed

lemma update_falsy_references_keep:
  assumes "\<not> truthy (u_primaryTypeId data)" and "\<not> truthy (u_secondaryTypeId data)"
  shows "pokemonTypes (snd (update d i data)) = pokemonTypes d"
proof -
  from update_store [of d i data] show ?thesis
  proof
    assume "snd (update d i data) = d"
    then show ?thesis by simp
  next
    assume "\<exists>p. update_tx i data d = Inr (p, snd (update d i data))"
    then obtain p where "update_tx i data d = Inr (p, snd (update d i data))" by blast
    from update_tx_Inr [OF this] assms obtain d1 where
      "pokemon_update d i data = Inr (p, d1)" and "snd (update d i data) = d1"
      by auto
    with types_after_pokemon_update show ?thesis by metis
  qed
qed

lemma update_not_resolved_keeps:
  assumes prim: "u_primaryTypeId data = Some s" and sec: "u_secondaryTypeId data = None"
    and un: "\<not> resolves d s"
  shows "pokemonTypes (snd (update d i data)) = pokemonTypes d"
proof (cases "s = []")
  case True
  with prim sec show ?thesis by (intro update_falsy_references_keep) simp_all
next
  case False
  from update_not_resolved_fails [OF prim False un] obtain e where
    "update d i data = (Inl e, d)" by blast
  then show ?thesis by simp
qed


lemma resolves_label:
  "resolves d s = (\<exists>t. parseInt s = Some t \<and> (\<exists>ty \<in> set (types d). type_id ty = t))"
  by (cases "parseInt s") (simp_all add: resolves_def)

text \<open>
  Claim C4. Take an existing entity and an input with a primary reference and no
  secondary reference. When the reference resolves, every completed \<open>update\<close> leaves the
  entity with exactly the one assignment to that label, so that a previous secondary
  assignment is gone, and \<open>update\<close> does complete when no other entity has the name the
  input supplies. When the reference does not resolve, the assignments of the store
  after the call are those before it; \<open>update\<close> fails, with the store unchanged, when the
  reference is not empty; and the error is the missing-label error, of kind NotFound,
  when the reference is a numeric string and no other entity has the name of the input,
  which is when the transaction gets to the look-up of the label.
\<close>

theorem update_primary_only:
  assumes ex: "\<exists>p \<in> set (pokemons d). row_id p = i"
    and prim: "u_primaryTypeId data = Some s" and sec: "u_secondaryTypeId data = None"
  shows "(parseInt s = Some t \<and> (\<exists>ty \<in> set (types d). type_id ty = t) \<longrightarrow>
            (\<forall>h d'. update d i data = (Inr h, d') \<longrightarrow>
               filter (\<lambda>pt. pokemonId pt = i) (pokemonTypes d') =
                 [\<lparr>pokemonId = i, typeId = t\<rparr>]) \<and>
            (name_free d i data \<longrightarrow> (\<exists>h d'. update d i data = (Inr h, d')))) \<and>
         (\<not> resolves d s \<longrightarrow>
            pokemonTypes (snd (update d i data)) = pokemonTypes d \<and>
            (s \<noteq> [] \<longrightarrow> (\<exists>e. update d i data = (Inl e, d))) \<and>
            (parseInt s = Some t \<and> name_free d i data \<longrightarrow>
               update d i data = (Inl PrimaryTypeNotFound, d) \<and>
               kind_of PrimaryTypeNotFound = NotFound))"
proof (intro conjI impI allI)
  fix h d'
  assume "parseInt s = Some t \<and> (\<exists>ty \<in> set (types d). type_id ty = t)"
    and "update d i data = (Inr h, d')"
  then show "filter (\<lambda>pt. pokemonId pt = i) (pokemonTypes d') = [\<lparr>pokemonId = i, typeId = t\<rparr>]"
    using update_primary_only_store [OF prim sec] by blast
next
  assume a: "parseInt s = Some t \<and> (\<exists>ty \<in> set (types d). type_id ty = t)"
    and f: "name_free d i data"
  from f have free: "\<forall>n. u_name data = Some n \<longrightarrow>
                 \<not> (\<exists>q \<in> set (pokemons d). row_id q \<noteq> i \<and> row_name q = n)"
    by (simp add: name_free_iff)
  from a update_primary_only_succeeds [OF ex free prim sec]
  show "\<exists>h d'. update d i data = (Inr h, d')" by blast
next
  assume "\<not> resolves d s"
  then show "pokemonTypes (snd (update d i data)) = pokemonTypes d"
    by (rule update_not_resolved_keeps [OF prim sec])
next
  assume "\<not> resolves d s" and "s \<noteq> []"
  then show "\<exists>e. update d i data = (Inl e, d)"
    using update_not_resolved_fails [OF prim] by blast
next
  assume un: "\<not> resolves d s" and a: "parseInt s = Some t \<and> name_free d i data"
  from a have free: "\<forall>n. u_name data = Some n \<longrightarrow>
                 \<not> (\<exists>q \<in> set (pokemons d). row_id q \<noteq> i \<and> row_name q = n)"
    by (simp add: name_free_iff)
  from un a have "\<not> (\<exists>ty \<in> set (types d). type_id ty = t)"
    by (auto simp: resolves_label)
  with a update_primary_unresolved [OF ex free prim]
  show "update d i data = (Inl PrimaryTypeNotFound, d)" by blast
next
  show "kind_of PrimaryTypeNotFound = NotFound" by simp
qed

theorem update_primary_only_witness:
  "filter (\<lambda>pt. pokemonId pt = 1) (pokemonTypes ex_db) =
     [\<lparr>pokemonId = 1, typeId = 3\<rparr>, \<lparr>pokemonId = 1, typeId = 2\<rparr>] \<and>
   update ex_db 1 (ex_update None (Some ''1'') None) =
     (Inr (ex_row 1 ''bulbasaur'',
           [(\<lparr>pokemonId = 1, typeId = 1\<rparr>, \<lparr>type_id = 1, type_name = ''fire''\<rparr>)]),
      ex_db\<lparr>pokemonTypes := [\<lparr>pokemonId = 2, typeId = 1\<rparr>, \<lparr>pokemonId = 1, typeId = 1\<rparr>]\<rparr>) \<and>
   filter (\<lambda>pt. pokemonId pt = 1)
     (pokemonTypes (ex_db\<lparr>pokemonTypes :=
        [\<lparr>pokemonId = 2, typeId = 1\<rparr>, \<lparr>pokemonId = 1, typeId = 1\<rparr>]\<rparr>)) =
     [\<lparr>pokemonId = 1, typeId = 1\<rparr>] \<and>
   update ex_db 1 (ex_update None (Some ''9'') None) = (Inl PrimaryTypeNotFound, ex_db)"
proof -
  have ex: "\<exists>p \<in> set (pokemons ex_db). row_id p = 1"
    by (simp add: ex_db_def ex_row_def)
  have p1: "u_primaryTypeId (ex_update None (Some ''1'') None) = Some ''1''"
    and p9: "u_primaryTypeId (ex_update None (Some ''9'') None) = Some ''9''"
    and s1: "u_secondaryTypeId (ex_update None (Some ''1'') None) = None"
    and s9: "u_secondaryTypeId (ex_update None (Some ''9'') None) = None"
    by (simp_all add: ex_update_def)
  have i1: "parseInt ''1'' = Some 1" and i9: "parseInt ''9'' = Some 9"
    by code_simp+
  have f9: "name_free ex_db 1 (ex_update None (Some ''9'') None)"
    by (simp add: name_free_def ex_update_def)
  have l1: "\<exists>ty \<in> set (types ex_db). type_id ty = 1"
    by (simp add: ex_db_def ex_types_def)
  have l9: "\<not> resolves ex_db ''9''"
    by (simp add: resolves_def i9 ex_db_def ex_types_def)
  have before: "filter (\<lambda>pt. pokemonId pt = 1) (pokemonTypes ex_db) =
     [\<lparr>pokemonId = 1, typeId = 3\<rparr>, \<lparr>pokemonId = 1, typeId = 2\<rparr>]"
    by (simp add: ex_db_def)
  have up: "update ex_db 1 (ex_update None (Some ''1'') None) =
     (Inr (ex_row 1 ''bulbasaur'',
           [(\<lparr>pokemonId = 1, typeId = 1\<rparr>, \<lparr>type_id = 1, type_name = ''fire''\<rparr>)]),
      ex_db\<lparr>pokemonTypes := [\<lparr>pokemonId = 2, typeId = 1\<rparr>, \<lparr>pokemonId = 1, typeId = 1\<rparr>]\<rparr>)"
    by code_simp
  have c1: "filter (\<lambda>pt. pokemonId pt = 1)
     (pokemonTypes (ex_db\<lparr>pokemonTypes :=
        [\<lparr>pokemonId = 2, typeId = 1\<rparr>, \<lparr>pokemonId = 1, typeId = 1\<rparr>]\<rparr>)) =
     [\<lparr>pokemonId = 1, typeId = 1\<rparr>]"
    using update_primary_only [OF ex p1 s1, of 1] i1 l1 up by blast
  have c2: "update ex_db 1 (ex_update None (Some ''9'') None) = (Inl PrimaryTypeNotFound, ex_db)"
    using update_primary_only [OF ex p9 s9, of 9] i9 f9 l9 by blast
  from before up c1 c2 show ?thesis by (intro conjI)
qed


subsection \<open>The name of an update\<close>

paragraph \<open>Errors of kind Conflict\<close>








paragraph \<open>A name that another entity has\<close>


paragraph \<open>An update that succeeds\<close>







section \<open>findMany\<close>

lemma ceil_div_ceiling:
  "l \<noteq> 0 \<Longrightarrow> ceil_div t l = Finite \<lceil>real_of_int t / real_of_int l\<rceil>"
  by (simp add: ceil_div_def ceiling_divide_eq_div)

lemma sorted_ordered_matches: "sorted (map row_id (ordered_matches d w))"
  by (simp add: ordered_matches_def)

lemma length_ordered_matches:
  "length (ordered_matches d w) = length (filter (matches d w) (pokemons d))"
  by (simp add: ordered_matches_def)

lemma set_ordered_matches:
  "set (ordered_matches d w) = {p \<in> set (pokemons d). matches d w p}"
  by (auto simp: ordered_matches_def)

lemma sorted_page:
  "sorted (map f xs) \<Longrightarrow> sorted (map f (take n (drop m xs)))"
proof -
  assume "sorted (map f xs)"
  then have "sorted (take n (drop m (map f xs)))"
    by (intro sorted_wrt_take sorted_wrt_drop)
  then show ?thesis by (simp only: take_map drop_map)
qed

lemma fst_include [simp]: "fst (include_PokemonType d p) = p"
  by (simp add: include_PokemonType_def)

lemma past_last_page:
  assumes "1 \<le> l" and "0 \<le> t" and "\<lceil>real_of_int t / real_of_int l\<rceil> < pg"
  shows "t \<le> (pg - 1) * l"
proof -
  from assms(3) have "\<lceil>real_of_int t / real_of_int l\<rceil> \<le> pg - 1" by simp
  then have "real_of_int t / real_of_int l \<le> real_of_int (pg - 1)"
    by (simp only: ceiling_le_iff)
  with assms(1) have "real_of_int t \<le> real_of_int (pg - 1) * real_of_int l"
    by (simp add: pos_divide_le_eq)
  then have "real_of_int t \<le> real_of_int ((pg - 1) * l)" by simp
  then show ?thesis by (simp only: of_int_le_iff)
qed

text \<open>
  Claim C5, as the service implements it. The service validates neither the page nor the
  page size nor the label filter, and the statement holds on the inputs that need no
  validation. For a page number of at least 1, a page size of at least 1 and a label filter
  that is absent, empty or a numeric string, \<open>findMany\<close> returns a result and not an
  error. Its data are the hydrated entities that match the filter, in ascending order of
  identifier, from offset \<open>(page - 1) * limit\<close>, at most \<open>limit\<close> of them. Its
  metadata are the page, the page size, the number of matching entities, the ceiling of
  that number over the page size, whether \<open>page * limit\<close> is less than that number, and
  whether the page is greater than 1. On a page past the last one the data are empty and
  the metadata are the same.
\<close>

theorem findMany_page:
  assumes pg: "1 \<le> page_of filters" and lm: "1 \<le> limit_of filters"
    and ty: "w_PokemonType_some (build_where filters) \<noteq> Some None"
  shows "\<exists>r. findMany d filters = Inr r \<and>
           res_data r =
             map (include_PokemonType d)
               (take (nat (limit_of filters))
                  (drop (nat ((page_of filters - 1) * limit_of filters))
                     (ordered_matches d (build_where filters)))) \<and>
           int (length (res_data r)) \<le> limit_of filters \<and>
           sorted (map (\<lambda>h. row_id (fst h)) (res_data r)) \<and>
           pg_page (res_pagination r) = page_of filters \<and>
           pg_limit (res_pagination r) = limit_of filters \<and>
           pg_total (res_pagination r) =
             int (length (ordered_matches d (build_where filters))) \<and>
           pg_totalPages (res_pagination r) =
             Finite \<lceil>real_of_int (pg_total (res_pagination r)) / real_of_int (limit_of filters)\<rceil> \<and>
           pg_hasNext (res_pagination r) =
             (page_of filters * limit_of filters < pg_total (res_pagination r)) \<and>
           pg_hasPrev (res_pagination r) = (1 < page_of filters) \<and>
           (\<lceil>real_of_int (pg_total (res_pagination r)) / real_of_int (limit_of filters)\<rceil>
              < page_of filters \<longrightarrow> res_data r = [])"
proof -
  define w where "w = build_where filters"
  define rows where "rows = ordered_matches d w"
  define page_rows where
    "page_rows = take (nat (limit_of filters))
                   (drop (nat ((page_of filters - 1) * limit_of filters)) rows)"
  define tot where "tot = int (length rows)"
  define r where
    "r = \<lparr>res_data = map (include_PokemonType d) page_rows,
          res_pagination =
            \<lparr>pg_page = page_of filters, pg_limit = limit_of filters, pg_total = tot,
             pg_totalPages = ceil_div tot (limit_of filters),
             pg_hasNext = (page_of filters * limit_of filters < tot),
             pg_hasPrev = (1 < page_of filters)\<rparr>\<rparr>"
  from pg lm have skip: "\<not> (page_of filters - 1) * limit_of filters < 0"
    by (simp add: not_less)
  from lm have tk: "0 \<le> limit_of filters" by simp
  have many: "pokemon_findMany d w ((page_of filters - 1) * limit_of filters) (limit_of filters) =
                Inr (map (include_PokemonType d) page_rows)"
    using ty skip tk
    by (simp add: pokemon_findMany_def w_def rows_def page_rows_def Let_def)
  have cnt: "pokemon_count d w = Inr tot"
    using ty by (simp add: pokemon_count_def w_def tot_def rows_def length_ordered_matches)
  have res: "findMany d filters = Inr r"
    using many cnt by (simp add: findMany_def Let_def w_def [symmetric] r_def)
  have len: "int (length (res_data r)) \<le> limit_of filters"
    using lm by (simp add: r_def page_rows_def)
  have "sorted (map row_id page_rows)"
    unfolding page_rows_def rows_def by (rule sorted_page [OF sorted_ordered_matches])
  then have srt: "sorted (map (\<lambda>h. row_id (fst h)) (res_data r))"
    by (simp add: r_def comp_def)
  from lm have "limit_of filters \<noteq> 0" by simp
  from ceil_div_ceiling [OF this] have
    tp: "pg_totalPages (res_pagination r) =
           Finite \<lceil>real_of_int (pg_total (res_pagination r)) / real_of_int (limit_of filters)\<rceil>"
    by (simp add: r_def)
  have beyond: "res_data r = []"
    if "\<lceil>real_of_int (pg_total (res_pagination r)) / real_of_int (limit_of filters)\<rceil>
          < page_of filters"
  proof -
    from that have "\<lceil>real_of_int tot / real_of_int (limit_of filters)\<rceil> < page_of filters"
      by (simp add: r_def)
    from past_last_page [OF lm _ this] have "tot \<le> (page_of filters - 1) * limit_of filters"
      by (simp add: tot_def)
    then have "length rows \<le> nat ((page_of filters - 1) * limit_of filters)"
      by (simp add: tot_def)
    then show ?thesis by (simp add: r_def page_rows_def)
  qed
  from res len srt tp beyond show ?thesis
    by (intro exI [of _ r]) (simp add: r_def page_rows_def rows_def w_def tot_def)
qed

theorem findMany_page_witness:
  "\<exists>r. findMany ex_db5 (ex_query 4) = Inr r \<and> res_data r = [] \<and>
     pg_total (res_pagination r) = 5 \<and> pg_totalPages (res_pagination r) = Finite 3 \<and>
     \<not> pg_hasNext (res_pagination r) \<and> pg_hasPrev (res_pagination r)"
proof -
  have pg: "page_of (ex_query 4) = 4" and lm: "limit_of (ex_query 4) = 2"
    by (simp_all add: page_of_def limit_of_def ex_query_def)
  have h1: "1 \<le> page_of (ex_query 4)" and h2: "1 \<le> limit_of (ex_query 4)"
    by (simp_all add: pg lm)
  have h3: "w_PokemonType_some (build_where (ex_query 4)) \<noteq> Some None"
    by (simp add: build_where_def ex_query_def)
  have len: "int (length (ordered_matches ex_db5 (build_where (ex_query 4)))) = 5"
    by code_simp
  from findMany_page [OF h1 h2 h3, of ex_db5] obtain r where
    r: "findMany ex_db5 (ex_query 4) = Inr r"
      "pg_total (res_pagination r) =
         int (length (ordered_matches ex_db5 (build_where (ex_query 4))))"
      "pg_totalPages (res_pagination r) =
         Finite \<lceil>real_of_int (pg_total (res_pagination r)) /
                  real_of_int (limit_of (ex_query 4))\<rceil>"
      "pg_hasNext (res_pagination r) =
         (page_of (ex_query 4) * limit_of (ex_query 4) < pg_total (res_pagination r))"
      "pg_hasPrev (res_pagination r) = (1 < page_of (ex_query 4))"
      "\<lceil>real_of_int (pg_total (res_pagination r)) / real_of_int (limit_of (ex_query 4))\<rceil>
         < page_of (ex_query 4) \<longrightarrow> res_data r = []"
    by blast
  from r(2) len have t: "pg_total (res_pagination r) = 5" by simp
  have c: "\<lceil>real_of_int 5 / real_of_int 2\<rceil> = (3::int)" by simp
  from r(3) t lm c have tp: "pg_totalPages (res_pagination r) = Finite 3" by simp
  from r(4) t pg lm have hn: "\<not> pg_hasNext (res_pagination r)" by simp
  from r(5) pg have hp: "pg_hasPrev (res_pagination r)" by simp
  from r(6) t pg lm c have em: "res_data r = []" by simp
  from r(1) em t tp hn hp show ?thesis by blast
qed


text \<open>
  Claim C5, as stated, covers every filter input. On the store of five entities: page 0
  gives a negative \<open>skip\<close>, which the storage client refuses, so \<open>findMany\<close> throws; a
  page size of \<open>-2\<close> returns two entities, counted from the end of the ordered rows, which
  is more than the page size and not the rows from the offset; a page size of 0 gives an
  infinite number of pages; and a label filter that is not numeric parses to \<open>NaN\<close>,
  which the storage client refuses.
\<close>

theorem findMany_unvalidated_counterexample:
  "findMany ex_db5 (ex_filter 0 2 None) = Inl (Storage InvalidArgument) \<and>
   findMany ex_db5 (ex_filter 1 (- 2) None) =
     Inr \<lparr>res_data =
            [ex_hydrated 4 ''d'' \<lparr>type_id = 3, type_name = ''grass''\<rparr>,
             ex_hydrated 5 ''e'' \<lparr>type_id = 2, type_name = ''water''\<rparr>],
          res_pagination =
            \<lparr>pg_page = 1, pg_limit = - 2, pg_total = 5, pg_totalPages = Finite (- 2),
             pg_hasNext = True, pg_hasPrev = False\<rparr>\<rparr> \<and>
   findMany ex_db5 (ex_filter 1 0 None) =
     Inr \<lparr>res_data = [],
          res_pagination =
            \<lparr>pg_page = 1, pg_limit = 0, pg_total = 5, pg_totalPages = PosInfinity,
             pg_hasNext = True, pg_hasPrev = False\<rparr>\<rparr> \<and>
   findMany ex_db5 (ex_filter 1 2 (Some ''abc'')) = Inl (Storage InvalidArgument)"
  by code_simp


end
